theory Spec2Isabelle
  imports Complex_Main "HOL-Library.Sublist" "HOL-Library.Product_Lexorder" "HOL-Library.Multiset"
begin

section \<open>JavaScript values used by the retrieval core\<close>

text \<open>
  The retrieval core of mirror-server is TypeScript. Its scores are JavaScript numbers.
  A number is modelled as a real, with the three non-finite values the code can produce
  or test for written out: \<open>NaN\<close> (what arithmetic on \<open>undefined\<close> gives), and the two
  infinities (what a division by zero gives). Rounding of doubles is not modelled: a
  finite double stands for the real it denotes.
\<close>

datatype jsnum = NaN | Fin real | PInf | NInf

text \<open>\<open>ToNumber\<close> of a property that may be \<open>undefined\<close>: \<open>undefined\<close> converts to \<open>NaN\<close>.\<close>

fun ToNumber :: "real option \<Rightarrow> jsnum" where
  "ToNumber None = NaN"
| "ToNumber (Some x) = Fin x"

fun js_neg :: "jsnum \<Rightarrow> jsnum" where
  "js_neg NaN = NaN"
| "js_neg (Fin a) = Fin (- a)"
| "js_neg PInf = NInf"
| "js_neg NInf = PInf"

fun js_add :: "jsnum \<Rightarrow> jsnum \<Rightarrow> jsnum" where
  "js_add NaN b = NaN"
| "js_add a NaN = NaN"
| "js_add (Fin a) (Fin b) = Fin (a + b)"
| "js_add PInf NInf = NaN"
| "js_add NInf PInf = NaN"
| "js_add PInf b = PInf"
| "js_add NInf b = NInf"
| "js_add (Fin a) b = b"

definition js_sub :: "jsnum \<Rightarrow> jsnum \<Rightarrow> jsnum" where
  "js_sub a b = js_add a (js_neg b)"

text \<open>The sign of a number that is not \<open>NaN\<close>: \<open>-1\<close>, \<open>0\<close> or \<open>1\<close>.\<close>

fun js_sign :: "jsnum \<Rightarrow> int" where
  "js_sign NaN = 0"
| "js_sign (Fin a) = (if a < 0 then - 1 else if a = 0 then 0 else 1)"
| "js_sign PInf = 1"
| "js_sign NInf = - 1"

fun js_mul :: "jsnum \<Rightarrow> jsnum \<Rightarrow> jsnum" where
  "js_mul NaN b = NaN"
| "js_mul a NaN = NaN"
| "js_mul (Fin a) (Fin b) = Fin (a * b)"
| "js_mul a b =
     (if js_sign a * js_sign b = 0 then NaN
      else if js_sign a * js_sign b = 1 then PInf else NInf)"

text \<open>
  Division. A finite number divided by zero is an infinity (\<open>NaN\<close> for \<open>0 / 0\<close>); the
  zero divisors of this code are sums of non-negative indices, so they are \<open>+0\<close>.
\<close>

fun js_div :: "jsnum \<Rightarrow> jsnum \<Rightarrow> jsnum" where
  "js_div NaN b = NaN"
| "js_div a NaN = NaN"
| "js_div (Fin a) (Fin b) =
     (if b = 0 then (if a = 0 then NaN else if 0 < a then PInf else NInf)
      else Fin (a / b))"
| "js_div (Fin a) b = Fin 0"
| "js_div a (Fin b) =
     (if js_sign a * (if b < 0 then - 1 else 1) = 1 then PInf else NInf)"
| "js_div a b = NaN"

text \<open>\<open>x || 0\<close> on a number: \<open>NaN\<close> and \<open>0\<close> are falsy, every other number is kept.\<close>

fun js_or0 :: "jsnum \<Rightarrow> jsnum" where
  "js_or0 NaN = Fin 0"
| "js_or0 a = a"

text \<open>\<open>Math.max\<close> of two numbers: \<open>NaN\<close> if either is.\<close>

fun js_max2 :: "jsnum \<Rightarrow> jsnum \<Rightarrow> jsnum" where
  "js_max2 NaN b = NaN"
| "js_max2 a NaN = NaN"
| "js_max2 PInf b = PInf"
| "js_max2 a PInf = PInf"
| "js_max2 NInf b = b"
| "js_max2 a NInf = a"
| "js_max2 (Fin a) (Fin b) = Fin (max a b)"

text \<open>\<open>Math.max(...xs)\<close>: \<open>-Infinity\<close> for no argument.\<close>

definition js_max :: "jsnum list \<Rightarrow> jsnum" where
  "js_max xs = foldl js_max2 NInf xs"

text \<open>\<open>a ?? b\<close>, and \<open>a || b\<close> where \<open>a\<close> is \<open>undefined\<close> or a positive count\<close>

definition nullish :: "'a option \<Rightarrow> 'a \<Rightarrow> 'a" where
  "nullish a b = (case a of None \<Rightarrow> b | Some v \<Rightarrow> v)"

text \<open>
  A JavaScript string is a sequence of UTF-16 code units; \<open>length\<close>, \<open>slice\<close> and the
  regular expressions of this code (which have no \<open>u\<close> flag) count code units.
\<close>

type_synonym jsstring = "nat list"

definition asc :: "string \<Rightarrow> jsstring" where
  "asc s = map of_char s"

subsection \<open>\<open>Map\<close> and \<open>Array.prototype.sort\<close>\<close>

text \<open>
  A \<open>Map\<close> iterates in insertion order, and \<open>set\<close> on a key that is present replaces
  the value where the key stands. It is an association list without duplicate keys.
\<close>

fun map_set :: "('k \<times> 'v) list \<Rightarrow> 'k \<Rightarrow> 'v \<Rightarrow> ('k \<times> 'v) list" where
  "map_set [] k v = [(k, v)]"
| "map_set ((k', v') # m) k v =
     (if k' = k then (k, v) # m else (k', v') # map_set m k v)"

definition map_get :: "('k \<times> 'v) list \<Rightarrow> 'k \<Rightarrow> 'v option" where
  "map_get m k = map_of m k"

definition map_values :: "('k \<times> 'v) list \<Rightarrow> 'v list" where
  "map_values m = map snd m"

text \<open>
  \<open>Array.prototype.sort(cmp)\<close> is stable, and puts \<open>a\<close> after \<open>b\<close> only when
  \<open>cmp(a, b) > 0\<close> (a \<open>NaN\<close> from the comparator counts as \<open>0\<close>). For a comparator that
  is a consistent ordering, as the score comparators of this code are, every stable sort
  returns the same array; the model is the stable insertion sort.
\<close>

fun js_insort :: "('a \<Rightarrow> 'a \<Rightarrow> jsnum) \<Rightarrow> 'a \<Rightarrow> 'a list \<Rightarrow> 'a list" where
  "js_insort cmp x [] = [x]"
| "js_insort cmp x (y # ys) =
     (if js_sign (cmp x y) = 1 then y # js_insort cmp x ys else x # y # ys)"

definition js_sort :: "('a \<Rightarrow> 'a \<Rightarrow> jsnum) \<Rightarrow> 'a list \<Rightarrow> 'a list" where
  "js_sort cmp xs = foldr (js_insort cmp) xs []"

text \<open>
  \<open>[...new Set(xs)]\<close>: a \<open>Set\<close> iterates in insertion order and keeps the first
  occurrence of each element. The keys of a \<open>Map\<close> filled by \<open>set\<close> come in the same order.
\<close>

definition insertion_order :: "'a list \<Rightarrow> 'a list" where
  "insertion_order xs = foldl (\<lambda>acc x. if x \<in> set acc then acc else acc @ [x]) [] xs"

text \<open>\<open>String(n)\<close> of an integer: its decimal digits, with a minus sign when negative.\<close>

fun decimal :: "nat \<Rightarrow> jsstring" where
  "decimal n = (if n < 10 then [48 + n] else decimal (n div 10) @ [48 + n mod 10])"

declare decimal.simps [simp del]

definition js_String :: "int \<Rightarrow> jsstring" where
  "js_String i = (if i < 0 then 45 # decimal (nat (- i)) else decimal (nat i))"

text \<open>An error thrown by a collaborator; the code never looks inside one.\<close>

datatype js_error = Thrown

text \<open>\<open>Map.prototype.delete\<close>\<close>

definition map_delete :: "('k \<times> 'v) list \<Rightarrow> 'k \<Rightarrow> ('k \<times> 'v) list" where
  "map_delete m k = filter (\<lambda>kv. fst kv \<noteq> k) m"

text \<open>\<open>xs.join(sep)\<close>\<close>

fun js_join :: "jsstring \<Rightarrow> jsstring list \<Rightarrow> jsstring" where
  "js_join sep [] = []"
| "js_join sep [x] = x"
| "js_join sep (x # y # ys) = x @ sep @ js_join sep (y # ys)"

section \<open>The tokenizer\<close>

text \<open>The Chinese stop words of the tokenizer, as UTF-16 code units, in the order of the source.\<close>

definition CHINESE_STOP_WORDS :: "jsstring list" where
  "CHINESE_STOP_WORDS =
    [[30340], [20102], [26159], [22312], [25105], [26377], [21644], [23601], [19981],
     [20154], [37117], [19968], [19968, 20010], [19978], [20063], [24456], [21040],
     [35828], [35201], [21435], [20320], [20250], [30528], [27809, 26377], [30475],
     [22909], [33258, 24049], [36825], [37027], [20160, 20040], [24590, 20040],
     [22914, 20309], [20026, 20160, 20040], [21738, 20123], [21738, 20010], [35831],
     [33021], [21487, 20197], [24110], [24110, 25105], [21578, 35785], [20171, 32461],
     [20851, 20110], [20197, 21450], [25110, 32773], [24182, 19988], [20043], [19982],
     [21450], [31561], [20854], [20026], [20197], [20110], [32780], [25110], [20294],
     [22914], [33509], [21017], [22240], [25925], [25152], [32773], [20063], [30691],
     [28937], [20046], [21705], [20846], [23572], [32819], [30691], [28937], [21705]]"

text \<open>The English stop words of the tokenizer.\<close>

definition ENGLISH_STOP_WORDS :: "jsstring list" where
  "ENGLISH_STOP_WORDS =
    [asc ''the'', asc ''a'', asc ''an'', asc ''is'', asc ''are'', asc ''was'',
     asc ''were'', asc ''be'', asc ''been'', asc ''being'', asc ''have'', asc ''has'',
     asc ''had'', asc ''do'', asc ''does'', asc ''did'', asc ''will'', asc ''would'',
     asc ''could'', asc ''should'', asc ''may'', asc ''might'', asc ''can'', asc ''must'',
     asc ''shall'', asc ''of'', asc ''to'', asc ''in'', asc ''for'', asc ''on'',
     asc ''with'', asc ''at'', asc ''by'', asc ''from'', asc ''as'', asc ''into'',
     asc ''through'', asc ''during'', asc ''before'', asc ''after'', asc ''above'',
     asc ''below'', asc ''between'', asc ''under'', asc ''again'', asc ''further'',
     asc ''then'', asc ''once'', asc ''here'', asc ''there'', asc ''when'', asc ''where'',
     asc ''why'', asc ''how'', asc ''all'', asc ''each'', asc ''few'', asc ''more'',
     asc ''most'', asc ''other'', asc ''some'', asc ''such'', asc ''no'', asc ''nor'',
     asc ''not'', asc ''only'', asc ''own'', asc ''same'', asc ''so'', asc ''than'',
     asc ''too'', asc ''very'', asc ''just'', asc ''and'', asc ''but'', asc ''if'',
     asc ''or'', asc ''because'', asc ''as'', asc ''until'', asc ''while'', asc ''about'',
     asc ''against'', asc ''between'', asc ''into'', asc ''through'', asc ''what'',
     asc ''which'', asc ''who'', asc ''whom'', asc ''this'', asc ''that'', asc ''these'',
     asc ''those'', asc ''am'', asc ''it'', asc ''its'', asc ''my'', asc ''your'',
     asc ''his'', asc ''her'', asc ''their'', asc ''our'', asc ''i'', asc ''me'',
     asc ''you'', asc ''he'', asc ''she'', asc ''they'', asc ''we'', asc ''us'',
     asc ''him'', asc ''them'']"

record TokenizerOptions =
  filterStopWords :: "bool option"
  minWordLength :: "nat option"
  maxWordLength :: "nat option"

text \<open>
  The state of a \<open>TokenizerService\<close>: whether jieba was loaded at start-up, and what
  \<open>jieba.cut(text, false)\<close> returns. jieba-js is an external module, the
  "higher-quality segmentation backend" of the design: its \<open>cut\<close> is a parameter,
  any function from a text to tokens, \<open>None\<close> standing for an import or a call that
  throws.
\<close>

record TokenizerService =
  jiebaLoaded :: bool
  jieba_cut :: "jsstring \<Rightarrow> jsstring list option"

text \<open>The matches of \<open>/[...]+/g\<close> for a character class: the maximal runs of its characters.\<close>

fun runs_from :: "(nat \<Rightarrow> bool) \<Rightarrow> jsstring \<Rightarrow> jsstring \<Rightarrow> jsstring list" where
  "runs_from P cur [] = (if cur = [] then [] else [cur])"
| "runs_from P cur (c # cs) =
     (if P c then runs_from P (cur @ [c]) cs
      else (if cur = [] then [] else [cur]) @ runs_from P [] cs)"

definition match_runs :: "(nat \<Rightarrow> bool) \<Rightarrow> jsstring \<Rightarrow> jsstring list" where
  "match_runs P text = runs_from P [] text"

text \<open>\<open>[a-zA-Z]\<close>\<close>

definition isLatinLetter :: "nat \<Rightarrow> bool" where
  "isLatinLetter c = ((65 \<le> c \<and> c \<le> 90) \<or> (97 \<le> c \<and> c \<le> 122))"

text \<open>\<open>[\u4e00-\u9fa5]\<close>\<close>

definition isChineseChar :: "nat \<Rightarrow> bool" where
  "isChineseChar c = (19968 \<le> c \<and> c \<le> 40869)"

text \<open>
  \<open>toLowerCase\<close>, on the letters \<open>A\<close> to \<open>Z\<close>. The tokens of the fallback tokenizer are
  Latin letters or Chinese characters, and the stop words are lower-case Latin or
  Chinese, so no other case mapping is modelled.
\<close>

definition toLowerCase :: "jsstring \<Rightarrow> jsstring" where
  "toLowerCase s = map (\<lambda>c. if 65 \<le> c \<and> c \<le> 90 then c + 32 else c) s"

text \<open>The white space and line terminators that \<open>trim\<close> removes.\<close>

definition isWhiteSpace :: "nat \<Rightarrow> bool" where
  "isWhiteSpace c =
     (c \<in> set [9, 10, 11, 12, 13, 32, 160, 5760, 8232, 8233, 8239, 8287, 12288, 65279]
      \<or> (8192 \<le> c \<and> c \<le> 8202))"

text \<open>\<open>segment.slice(i, i + len)\<close> for every \<open>i\<close> from \<open>0\<close> to \<open>segment.length - len\<close>.\<close>

definition ngrams :: "nat \<Rightarrow> jsstring \<Rightarrow> jsstring list" where
  "ngrams len segment =
     map (\<lambda>i. take len (drop i segment)) [0 ..< Suc (length segment - len)]"

definition segmentTokens :: "jsstring \<Rightarrow> jsstring list" where
  "segmentTokens segment =
     concat (map (\<lambda>len. ngrams len segment) [1 ..< Suc (min 4 (length segment))])
     @ (if length segment \<le> 4 \<and> 1 \<le> length segment then [segment] else [])"

definition fallbackTokenize :: "jsstring \<Rightarrow> jsstring list" where
  "fallbackTokenize text =
     map toLowerCase (match_runs isLatinLetter text)
     @ concat (map segmentTokens (match_runs isChineseChar text))"

text \<open>\<open>jiebaTokenize\<close>: the call of jieba, and the fallback when it throws.\<close>

definition jiebaTokenize :: "TokenizerService \<Rightarrow> jsstring \<Rightarrow> jsstring list" where
  "jiebaTokenize this text =
     (case jieba_cut this text of Some result \<Rightarrow> result | None \<Rightarrow> fallbackTokenize text)"

definition isStopWord :: "jsstring \<Rightarrow> bool" where
  "isStopWord word =
     (word \<in> set CHINESE_STOP_WORDS \<or> toLowerCase word \<in> set ENGLISH_STOP_WORDS)"

text \<open>\<open>postProcess\<close>: the stop-word filter, the length filter, then \<open>[...new Set(processed)]\<close>.\<close>

definition postProcess :: "jsstring list \<Rightarrow> bool \<Rightarrow> nat \<Rightarrow> nat \<Rightarrow> jsstring list" where
  "postProcess tokens filterStop minLen maxLen =
     insertion_order
       (filter (\<lambda>token. minLen \<le> length token \<and> length token \<le> maxLen)
          (if filterStop then filter (\<lambda>token. \<not> isStopWord token) tokens else tokens))"

definition tokenize :: "TokenizerService \<Rightarrow> jsstring \<Rightarrow> TokenizerOptions \<Rightarrow> jsstring list" where
  "tokenize this text options =
     (if text = [] \<or> list_all isWhiteSpace text then []
      else postProcess
             (if jiebaLoaded this then jiebaTokenize this text else fallbackTokenize text)
             (nullish (filterStopWords options) True)
             (nullish (minWordLength options) 1)
             (nullish (maxWordLength options) 50))"

text \<open>\<open>frequency.set(token, (frequency.get(token) || 0) + 1)\<close>\<close>

definition countToken :: "(jsstring \<times> nat) list \<Rightarrow> jsstring \<Rightarrow> (jsstring \<times> nat) list" where
  "countToken frequency token =
     map_set frequency token (nullish (map_get frequency token) 0 + 1)"

text \<open>\<open>(a, b) => b[1] - a[1]\<close>\<close>

definition byFrequency :: "jsstring \<times> nat \<Rightarrow> jsstring \<times> nat \<Rightarrow> jsnum" where
  "byFrequency a b = js_sub (Fin (real (snd b))) (Fin (real (snd a)))"

definition extractKeywordsOptions :: TokenizerOptions where
  "extractKeywordsOptions =
     \<lparr> filterStopWords = Some True, minWordLength = Some 2, maxWordLength = None \<rparr>"

text \<open>\<open>extractKeywords(text, maxKeywords = 10)\<close>\<close>

definition extractKeywords :: "TokenizerService \<Rightarrow> jsstring \<Rightarrow> nat option \<Rightarrow> jsstring list" where
  "extractKeywords this text maxKeywords =
     map fst
       (take (nullish maxKeywords 10)
          (js_sort byFrequency
             (foldl countToken [] (tokenize this text extractKeywordsOptions))))"

text \<open>A tokenizer whose jieba did not load: it uses the fallback tokenizer.\<close>

definition fallbackService :: TokenizerService where
  "fallbackService = \<lparr> jiebaLoaded = False, jieba_cut = (\<lambda>text. None) \<rparr>"

section \<open>The BM25 index service\<close>

record BM25Document =
  d_id :: jsstring
  d_content :: jsstring
  d_fileName :: "jsstring option"
  d_preview :: "jsstring option"
  d_metadata :: "(jsstring \<times> jsstring) list option"

record BM25SearchResult =
  s_id :: jsstring
  s_score :: jsnum
  s_content :: jsstring
  s_fileName :: "jsstring option"
  s_preview :: "jsstring option"
  s_metadata :: "(jsstring \<times> jsstring) list option"

record BM25IndexOptions =
  o_k1 :: "real option"
  o_b :: "real option"
  o_boost :: "bool option"

definition DEFAULT_BM25_K1 :: real where
  "DEFAULT_BM25_K1 = 12 / 10"

definition DEFAULT_BM25_B :: real where
  "DEFAULT_BM25_B = 75 / 100"

definition TOKENIZER_CONFIG :: TokenizerOptions where
  "TOKENIZER_CONFIG =
     \<lparr> filterStopWords = Some True, minWordLength = Some 1, maxWordLength = None \<rparr>"

text \<open>\<open>{...doc, tokens: tokens.join(" ")}\<close>: the document as the service hands it to the index.\<close>

record IndexedDoc =
  i_doc :: BM25Document
  i_tokens :: jsstring

text \<open>
  Modelled from the spec: the elasticlunr index, an external library whose code is not
  part of the repository. It is modelled by the part of its interface the service uses,
  as the service's own declaration \<open>ElasticlunrIndex\<close> and the design describe it
  (\<open>removeDocument\<close> "removes by id if present"), and as the library behaves: a document
  store keyed by the reference field \<open>id\<close>; \<open>addDoc\<close> stores a document under its id;
  \<open>removeDocByRef\<close> returns at once when the reference is falsy (for a string, the empty
  string), and otherwise removes the document stored under the reference and does
  nothing when there is none; \<open>documentStore.getDoc\<close> reads it. How the library scores
  a query is not modelled: its \<open>search\<close> is a parameter \<open>srch\<close> of the operations that
  call it, any function from the index and the query string to a list of references
  with scores.
\<close>

record ElasticlunrIndex =
  documentStore :: "(jsstring \<times> IndexedDoc) list"

definition el_addDoc :: "ElasticlunrIndex \<Rightarrow> IndexedDoc \<Rightarrow> ElasticlunrIndex" where
  "el_addDoc ix doc = ix \<lparr> documentStore := map_set (documentStore ix) (d_id (i_doc doc)) doc \<rparr>"

definition el_removeDocByRef :: "ElasticlunrIndex \<Rightarrow> jsstring \<Rightarrow> ElasticlunrIndex" where
  "el_removeDocByRef ix docRef =
     (if docRef = [] then ix
      else
        (case map_get (documentStore ix) docRef of
           None \<Rightarrow> ix
         | Some doc \<Rightarrow> ix \<lparr> documentStore := map_delete (documentStore ix) docRef \<rparr>))"

definition el_getDoc :: "ElasticlunrIndex \<Rightarrow> jsstring \<Rightarrow> IndexedDoc option" where
  "el_getDoc ix docRef = map_get (documentStore ix) docRef"

type_synonym el_search = "ElasticlunrIndex \<Rightarrow> jsstring \<Rightarrow> (jsstring \<times> jsnum) list"

record IndexEntry =
  entry_index :: ElasticlunrIndex
  documentCount :: int
  lastAccessed :: int
  bm25_k1 :: real
  bm25_b :: real

text \<open>
  The service: its cache of indexes by key, and the tokenizer it was given. Every
  operation that reads the clock takes the value of \<open>Date.now()\<close> as \<open>now\<close>, in
  milliseconds.
\<close>

record BM25IndexService =
  indexCache :: "(jsstring \<times> IndexEntry) list"
  tokenizerService :: TokenizerService

definition IDLE_TIMEOUT :: int where
  "IDLE_TIMEOUT = 30 * 60 * 1000"

text \<open>The period of the clean-up timer, \<open>5 * 60 * 1000\<close> milliseconds.\<close>

definition CLEANUP_INTERVAL :: int where
  "CLEANUP_INTERVAL = 5 * 60 * 1000"

definition getIndexKey :: "nat \<Rightarrow> jsstring" where
  "getIndexKey userId = asc ''user_'' @ decimal userId"

definition indexedDoc :: "TokenizerService \<Rightarrow> BM25Document \<Rightarrow> IndexedDoc" where
  "indexedDoc tok doc =
     \<lparr> i_doc = doc, i_tokens = js_join [32] (tokenize tok (d_content doc) TOKENIZER_CONFIG) \<rparr>"

definition buildIndex ::
  "BM25IndexService \<Rightarrow> int \<Rightarrow> nat \<Rightarrow> BM25Document list \<Rightarrow> BM25IndexOptions \<Rightarrow> BM25IndexService" where
  "buildIndex this now userId documents options =
     this \<lparr> indexCache :=
       map_set (indexCache this) (getIndexKey userId)
         \<lparr> entry_index =
             foldl (\<lambda>ix doc. el_addDoc ix (indexedDoc (tokenizerService this) doc))
               \<lparr> documentStore = [] \<rparr> documents,
           documentCount = int (length documents),
           lastAccessed = now,
           bm25_k1 = nullish (o_k1 options) DEFAULT_BM25_K1,
           bm25_b = nullish (o_b options) DEFAULT_BM25_B \<rparr> \<rparr>"

definition noIndexOptions :: BM25IndexOptions where
  "noIndexOptions = \<lparr> o_k1 = None, o_b = None, o_boost = None \<rparr>"

definition addDocument ::
  "BM25IndexService \<Rightarrow> int \<Rightarrow> nat \<Rightarrow> BM25Document \<Rightarrow> BM25IndexService" where
  "addDocument this now userId document =
     (case map_get (indexCache this) (getIndexKey userId) of
        None \<Rightarrow> buildIndex this now userId [document] noIndexOptions
      | Some entry \<Rightarrow>
          this \<lparr> indexCache :=
            map_set (indexCache this) (getIndexKey userId)
              (entry \<lparr> entry_index := el_addDoc (entry_index entry) (indexedDoc (tokenizerService this) document),
                       documentCount := documentCount entry + 1,
                       lastAccessed := now \<rparr>) \<rparr>)"

definition removeDocument ::
  "BM25IndexService \<Rightarrow> int \<Rightarrow> nat \<Rightarrow> jsstring \<Rightarrow> BM25IndexService" where
  "removeDocument this now userId documentId =
     (case map_get (indexCache this) (getIndexKey userId) of
        None \<Rightarrow> this
      | Some entry \<Rightarrow>
          this \<lparr> indexCache :=
            map_set (indexCache this) (getIndexKey userId)
              (entry \<lparr> entry_index := el_removeDocByRef (entry_index entry) documentId,
                       documentCount := documentCount entry - 1,
                       lastAccessed := now \<rparr>) \<rparr>)"

text \<open>The loop of \<open>search\<close> over the first \<open>limit\<close> results: a result whose document is not stored is skipped.\<close>

definition formatResult :: "ElasticlunrIndex \<Rightarrow> jsstring \<times> jsnum \<Rightarrow> BM25SearchResult list" where
  "formatResult ix result =
     (case el_getDoc ix (fst result) of
        None \<Rightarrow> []
      | Some doc \<Rightarrow>
          [\<lparr> s_id = d_id (i_doc doc), s_score = snd result, s_content = d_content (i_doc doc),
             s_fileName = d_fileName (i_doc doc), s_preview = d_preview (i_doc doc),
             s_metadata = d_metadata (i_doc doc) \<rparr>])"

definition search ::
  "BM25IndexService \<Rightarrow> el_search \<Rightarrow> int \<Rightarrow> nat \<Rightarrow> jsstring \<Rightarrow> nat option
     \<Rightarrow> BM25IndexService \<times> BM25SearchResult list" where
  "search this srch now userId query limit =
     (case map_get (indexCache this) (getIndexKey userId) of
        None \<Rightarrow> (this, [])
      | Some entry \<Rightarrow>
          (this \<lparr> indexCache :=
             map_set (indexCache this) (getIndexKey userId) (entry \<lparr> lastAccessed := now \<rparr>) \<rparr>,
           (let queryTokens = tokenize (tokenizerService this) query TOKENIZER_CONFIG in
            if queryTokens = [] then []
            else concat (map (formatResult (entry_index entry))
                   (take (nullish limit 10) (srch (entry_index entry) (js_join [32] queryTokens)))))))"

text \<open>The loop of \<open>getScoresForDocuments\<close>: \<open>if (targetIds.has(result.ref)) scores.set(result.ref, result.score)\<close>.\<close>

definition keepScore ::
  "jsstring list \<Rightarrow> (jsstring \<times> jsnum) list \<Rightarrow> jsstring \<times> jsnum \<Rightarrow> (jsstring \<times> jsnum) list" where
  "keepScore documentIds scores result =
     (if fst result \<in> set documentIds then map_set scores (fst result) (snd result) else scores)"

definition getScoresForDocuments ::
  "BM25IndexService \<Rightarrow> el_search \<Rightarrow> int \<Rightarrow> nat \<Rightarrow> jsstring \<Rightarrow> jsstring list
     \<Rightarrow> BM25IndexService \<times> (jsstring \<times> jsnum) list" where
  "getScoresForDocuments this srch now userId query documentIds =
     (case map_get (indexCache this) (getIndexKey userId) of
        None \<Rightarrow> (this, [])
      | Some entry \<Rightarrow>
          (this \<lparr> indexCache :=
             map_set (indexCache this) (getIndexKey userId) (entry \<lparr> lastAccessed := now \<rparr>) \<rparr>,
           (let queryTokens = tokenize (tokenizerService this) query TOKENIZER_CONFIG in
            if queryTokens = [] then []
            else foldl (keepScore documentIds) []
                   (srch (entry_index entry) (js_join [32] queryTokens)))))"

definition clearIndex :: "BM25IndexService \<Rightarrow> nat \<Rightarrow> BM25IndexService" where
  "clearIndex this userId =
     (case map_get (indexCache this) (getIndexKey userId) of
        None \<Rightarrow> this
      | Some entry \<Rightarrow> this \<lparr> indexCache := map_delete (indexCache this) (getIndexKey userId) \<rparr>)"

text \<open>\<open>hasIndex\<close> and \<open>getDocumentCount\<close> read the cache and assign nothing.\<close>

definition hasIndex :: "BM25IndexService \<Rightarrow> nat \<Rightarrow> bool" where
  "hasIndex this userId = (map_get (indexCache this) (getIndexKey userId) \<noteq> None)"

definition getDocumentCount :: "BM25IndexService \<Rightarrow> nat \<Rightarrow> int" where
  "getDocumentCount this userId =
     (case map_get (indexCache this) (getIndexKey userId) of
        None \<Rightarrow> 0
      | Some entry \<Rightarrow> documentCount entry)"

text \<open>
  \<open>cleanupIdleIndexes\<close>, which the timer of \<open>startCleanupTask\<close> calls every
  \<open>CLEANUP_INTERVAL\<close> milliseconds: collect the keys of the idle entries, then delete them.
\<close>

definition keysToDelete :: "BM25IndexService \<Rightarrow> int \<Rightarrow> jsstring list" where
  "keysToDelete this now =
     map fst (filter (\<lambda>kv. now - lastAccessed (snd kv) > IDLE_TIMEOUT) (indexCache this))"

definition cleanupIdleIndexes :: "BM25IndexService \<Rightarrow> int \<Rightarrow> BM25IndexService" where
  "cleanupIdleIndexes this now =
     this \<lparr> indexCache := foldl map_delete (indexCache this) (keysToDelete this now) \<rparr>"

text \<open>The service as constructed: an empty cache.\<close>

definition newBM25IndexService :: "TokenizerService \<Rightarrow> BM25IndexService" where
  "newBM25IndexService tok = \<lparr> indexCache = [], tokenizerService = tok \<rparr>"

section \<open>The external collaborators: embeddings and the chunk store\<close>

text \<open>
  Modelled from the spec: the embedding model and the PostgreSQL store, which are
  outside the repository. They are modelled by the interface the retriever uses (an
  \<open>embed\<close> call; a similarity query filtered by tenant and floor, ordered by similarity;
  a keyword match query filtered by tenant), with PostgreSQL's reading of string
  literals and of \<open>LIKE\<close> patterns. \<open>embedQuery\<close> returns a vector or
  throws (\<open>None\<close>). The store is the table \<open>Knowledge\<close>; \<open>pool.connect()\<close> succeeds or
  throws; the distance operator \<open><=>\<close> of pgvector is a parameter of the store.
\<close>

type_synonym Embeddings = "jsstring \<Rightarrow> real list option"

record KnowledgeRow =
  kn_id :: int
  kn_userId :: nat
  kn_fileName :: jsstring
  kn_content :: jsstring
  kn_preview :: jsstring
  kn_size :: int
  kn_type :: jsstring
  kn_embedding :: "real list"

record Pool =
  knowledge :: "KnowledgeRow list"
  connectable :: bool
  cosineDistance :: "real list \<Rightarrow> real list \<Rightarrow> real"

subsection \<open>The similarity statement\<close>

text \<open>
  The lines a similarity statement of this repository is made of. \<open>NOT_SQL\<close> is a line
  of the statement's text that is no SQL.
\<close>

datatype sql_line =
    SELECT_id_content_similarity
  | FROM_Knowledge
  | WHERE_userId_is_2
  | AND_similarity_at_least_3
  | ORDER_BY_distance
  | LIMIT_4
  | NOT_SQL jsstring

text \<open>
  The server's reading of a similarity statement that comes with the four parameters
  \<open>$1\<close> to \<open>$4\<close>: it accepts the statement whose lines are these six, in this order.
  Any other sequence of lines is refused: a line that is no SQL is a syntax error, and
  without the floor condition the parameter \<open>$3\<close> is passed but stands nowhere in the
  statement, so that its type cannot be determined.
\<close>

definition accepts_similarity_statement :: "sql_line list \<Rightarrow> bool" where
  "accepts_similarity_statement statement =
     (statement =
        [SELECT_id_content_similarity, FROM_Knowledge, WHERE_userId_is_2,
         AND_similarity_at_least_3, ORDER_BY_distance, LIMIT_4])"

text \<open>\<open>1 - (embedding <=> $1::vector)\<close>\<close>

definition similarityTo :: "Pool \<Rightarrow> real list \<Rightarrow> KnowledgeRow \<Rightarrow> real" where
  "similarityTo pool queryEmbedding row = 1 - cosineDistance pool (kn_embedding row) queryEmbedding"

text \<open>
  \<open>client.query(statement, [$1, $2, $3, $4])\<close> for a similarity statement: the rows of
  the user at or above the floor, by increasing distance (rows at the same distance in
  table order), at most \<open>$4\<close> of them, each with its similarity.
\<close>

definition query_similarity ::
  "Pool \<Rightarrow> sql_line list \<Rightarrow> real list \<Rightarrow> nat \<Rightarrow> real \<Rightarrow> nat
     \<Rightarrow> js_error + (KnowledgeRow \<times> real) list" where
  "query_similarity pool statement p1 p2 p3 p4 =
     (if \<not> accepts_similarity_statement statement then Inl Thrown
      else
        Inr (map (\<lambda>row. (row, similarityTo pool p1 row))
              (take p4
                (sort_key (\<lambda>row. cosineDistance pool (kn_embedding row) p1)
                  (filter (\<lambda>row. kn_userId row = p2 \<and> p3 \<le> similarityTo pool p1 row)
                     (knowledge pool))))))"

subsection \<open>String literals and \<open>ILIKE\<close>\<close>

text \<open>
  The server's reading of a string literal, from the character after the opening quote
  (with \<open>standard_conforming_strings\<close>, the default): two quotes stand for one quote,
  one quote ends the literal. The result is the value of the literal and the text that
  follows it; \<open>None\<close> when the literal never ends.
\<close>

fun read_literal :: "jsstring \<Rightarrow> (jsstring \<times> jsstring) option" where
  "read_literal [] = None"
| "read_literal [c] = (if c = 39 then Some ([], []) else None)"
| "read_literal (c # d # cs) =
     (if c = 39 then
        (if d = 39 then map_option (\<lambda>vr. (39 # fst vr, snd vr)) (read_literal cs)
         else Some ([], d # cs))
      else map_option (\<lambda>vr. (c # fst vr, snd vr)) (read_literal (d # cs)))"

text \<open>
  \<open>LIKE\<close> with the default escape character: \<open>%\<close> (37) matches any sequence, \<open>_\<close> (95) any
  one character, a backslash (92) makes the next pattern character literal. A pattern
  that ends in a lone backslash is an error in PostgreSQL; it matches nothing here,
  and no pattern of this code ends so (each ends in \<open>%\<close>).
\<close>

fun like :: "jsstring \<Rightarrow> jsstring \<Rightarrow> bool" where
  "like [] t = (t = [])"
| "like (p # ps) [] = (p = 37 \<and> like ps [])"
| "like (p # ps) (c # cs) =
     (if p = 37 then like ps (c # cs) \<or> like (p # ps) cs
      else if p = 95 then like ps cs
      else if p = 92 then (case ps of [] \<Rightarrow> False | q # qs \<Rightarrow> c = q \<and> like qs cs)
      else c = p \<and> like ps cs)"

text \<open>\<open>ILIKE\<close>: \<open>LIKE\<close> on the lower-cased pattern and text.\<close>

definition ilike :: "jsstring \<Rightarrow> jsstring \<Rightarrow> bool" where
  "ilike pattern t = like (toLowerCase pattern) (toLowerCase t)"

subsection \<open>The keyword statement\<close>

text \<open>
  The keyword statement holds one condition \<open>content ILIKE '...'\<close> per keyword, summed as
  \<open>matchCount\<close> and joined by \<open>OR\<close> in the \<open>WHERE\<close> clause. The server is given the text
  between the quotes of each condition and reads it as a literal; a text whose literal
  does not end at the closing quote the template wrote makes a different statement,
  which is refused here.
\<close>

definition read_pattern :: "jsstring \<Rightarrow> jsstring option" where
  "read_pattern literalText =
     (case read_literal (literalText @ [39]) of
        Some (v, []) \<Rightarrow> Some v
      | _ \<Rightarrow> None)"

fun read_patterns :: "jsstring list \<Rightarrow> jsstring list option" where
  "read_patterns [] = Some []"
| "read_patterns (t # ts) =
     (case read_pattern t of
        None \<Rightarrow> None
      | Some p \<Rightarrow> map_option (\<lambda>ps. p # ps) (read_patterns ts))"

definition matchCount :: "jsstring list \<Rightarrow> KnowledgeRow \<Rightarrow> nat" where
  "matchCount patterns row = length (filter (\<lambda>p. ilike p (kn_content row)) patterns)"

text \<open>
  \<open>client.query(statement, [$1, $2])\<close> for the keyword statement: the rows of the user
  that match a pattern, \<open>ORDER BY "matchCount" DESC, id ASC\<close>, at most \<open>$2\<close> of them.
\<close>

definition query_keywords ::
  "Pool \<Rightarrow> jsstring list \<Rightarrow> nat \<Rightarrow> nat \<Rightarrow> js_error + (KnowledgeRow \<times> nat) list" where
  "query_keywords pool literalTexts p1 p2 =
     (case read_patterns literalTexts of
        None \<Rightarrow> Inl Thrown
      | Some patterns \<Rightarrow>
          Inr (map (\<lambda>row. (row, matchCount patterns row))
                (take p2
                  (sort_key (\<lambda>row. (- int (matchCount patterns row), kn_id row))
                    (filter (\<lambda>row. kn_userId row = p1 \<and> 0 < matchCount patterns row)
                       (knowledge pool))))))"

section \<open>The hybrid retriever\<close>

text \<open>
  What the retriever uses of a \<open>BM25IndexService\<close>: the two methods it calls. A call
  returns a value or throws.
\<close>

record BM25IndexServiceHandle =
  svc_hasIndex :: "nat \<Rightarrow> js_error + bool"
  svc_getScoresForDocuments ::
    "nat \<Rightarrow> jsstring \<Rightarrow> jsstring list \<Rightarrow> js_error + (jsstring \<times> jsnum) list"


text \<open>
  \<open>HybridRetrieverOptions\<close>: every option may be absent. \<open>limit\<close> is a count of
  results; the other numbers are finite.
\<close>

record HybridRetrieverOptions =
  o_limit :: "nat option"
  o_minSimilarity :: "real option"
  o_rrfK :: "real option"
  o_vectorWeight :: "real option"
  o_keywordWeight :: "real option"
  o_useBM25Rerank :: "bool option"
  o_bm25Weight :: "real option"
  o_bm25IndexService :: "BM25IndexServiceHandle option"
  o_tokenizerService :: "TokenizerService option"

text \<open>
  The properties of a \<open>HybridRetriever\<close> object. The class declares no \<open>rrfK\<close> property,
  but \<open>mergeResultsWithRRF\<close> reads \<open>this.rrfK\<close>; the slot \<open>rrfK\<close> is what that read
  yields, \<open>None\<close> for \<open>undefined\<close>.
\<close>

record HybridRetriever =
  pool :: Pool
  embeddings :: Embeddings
  userId :: nat
  limit :: nat
  minSimilarity :: real
  rrfK :: "real option"
  vectorWeight :: real
  keywordWeight :: real
  useBM25Rerank :: bool
  bm25Weight :: real
  hr_bm25IndexService :: "BM25IndexServiceHandle option"
  hr_tokenizerService :: "TokenizerService option"

text \<open>
  The constructor. It stores \<open>limit\<close>, \<open>minSimilarity\<close>, the two weights, the rerank
  flag, \<open>bm25Weight\<close> and the two services, the numbers and the flag each with its
  default. It never reads \<open>options.rrfK\<close> and never assigns \<open>this.rrfK\<close>, which stays
  \<open>undefined\<close>.
\<close>

definition HybridRetriever_constructor ::
  "Pool \<Rightarrow> Embeddings \<Rightarrow> nat \<Rightarrow> HybridRetrieverOptions \<Rightarrow> HybridRetriever" where
  "HybridRetriever_constructor pl emb uid options =
     \<lparr> pool = pl,
       embeddings = emb,
       userId = uid,
       limit = nullish (o_limit options) 5,
       minSimilarity = nullish (o_minSimilarity options) (3 / 10),
       rrfK = None,
       vectorWeight = nullish (o_vectorWeight options) (7 / 10),
       keywordWeight = nullish (o_keywordWeight options) (3 / 10),
       useBM25Rerank = nullish (o_useBM25Rerank options) False,
       bm25Weight = nullish (o_bm25Weight options) (3 / 10),
       hr_bm25IndexService = o_bm25IndexService options,
       hr_tokenizerService = o_tokenizerService options \<rparr>"

record VectorSearchResult =
  v_id :: int
  v_content :: jsstring
  v_similarity :: real

record KeywordSearchResult =
  k_id :: int
  k_fileName :: jsstring
  k_content :: jsstring
  k_preview :: jsstring
  k_size :: int
  k_type :: jsstring
  k_matchCount :: int

record SearchResult =
  r_id :: int
  r_fileName :: jsstring
  r_content :: jsstring
  r_preview :: jsstring
  r_size :: int
  r_type :: jsstring
  r_similarity :: real
  r_keywordScore :: int
  r_hybridScore :: jsnum

text \<open>The values of \<open>scoreMap\<close> in \<open>mergeResultsWithRRF\<close>.\<close>

record ScoreEntry =
  e_result :: SearchResult
  e_vectorRank :: "nat option"
  e_keywordRank :: "nat option"
  e_vectorScore :: jsnum
  e_keywordScore :: jsnum

text \<open>\<open>1 / (this.rrfK + index + 1)\<close>\<close>

definition rrfScore :: "HybridRetriever \<Rightarrow> nat \<Rightarrow> jsnum" where
  "rrfScore this index =
     js_div (Fin 1) (js_add (js_add (ToNumber (rrfK this)) (Fin (real index))) (Fin 1))"

text \<open>The body of \<open>vectorResults.forEach((result, index) => ...)\<close>.\<close>

definition vector_step ::
  "HybridRetriever \<Rightarrow> (int \<times> ScoreEntry) list \<Rightarrow> nat \<times> VectorSearchResult \<Rightarrow> (int \<times> ScoreEntry) list" where
  "vector_step this scoreMap ir =
     (case ir of (index, result) \<Rightarrow>
        map_set scoreMap (v_id result)
          \<lparr> e_result =
              \<lparr> r_id = v_id result, r_fileName = [], r_content = v_content result,
                r_preview = [], r_size = 0, r_type = [],
                r_similarity = v_similarity result, r_keywordScore = 0,
                r_hybridScore = Fin 0 \<rparr>,
            e_vectorRank = Some (index + 1),
            e_keywordRank = None,
            e_vectorScore = js_mul (rrfScore this index) (Fin (vectorWeight this)),
            e_keywordScore = Fin 0 \<rparr>)"

text \<open>The body of \<open>keywordResults.forEach((result, index) => ...)\<close>.\<close>

definition keyword_step ::
  "HybridRetriever \<Rightarrow> (int \<times> ScoreEntry) list \<Rightarrow> nat \<times> KeywordSearchResult \<Rightarrow> (int \<times> ScoreEntry) list" where
  "keyword_step this scoreMap ir =
     (case ir of (index, result) \<Rightarrow>
        (case map_get scoreMap (k_id result) of
           Some existing \<Rightarrow>
             map_set scoreMap (k_id result)
               (existing
                 \<lparr> e_keywordRank := Some (index + 1),
                   e_keywordScore := js_mul (rrfScore this index) (Fin (keywordWeight this)),
                   e_result := (e_result existing)
                     \<lparr> r_fileName := k_fileName result, r_preview := k_preview result,
                       r_size := k_size result, r_type := k_type result,
                       r_keywordScore := k_matchCount result \<rparr> \<rparr>)
         | None \<Rightarrow>
             map_set scoreMap (k_id result)
               \<lparr> e_result =
                   \<lparr> r_id = k_id result, r_fileName = k_fileName result,
                     r_content = k_content result, r_preview = k_preview result,
                     r_size = k_size result, r_type = k_type result,
                     r_similarity = 0, r_keywordScore = k_matchCount result,
                     r_hybridScore = Fin 0 \<rparr>,
                 e_vectorRank = None,
                 e_keywordRank = Some (index + 1),
                 e_vectorScore = Fin 0,
                 e_keywordScore = js_mul (rrfScore this index) (Fin (keywordWeight this)) \<rparr>))"

text \<open>\<open>{...result, hybridScore: vectorScore + keywordScore}\<close>\<close>

definition finalize :: "ScoreEntry \<Rightarrow> SearchResult" where
  "finalize e = (e_result e) \<lparr> r_hybridScore := js_add (e_vectorScore e) (e_keywordScore e) \<rparr>"

text \<open>\<open>(a, b) => (b.hybridScore || 0) - (a.hybridScore || 0)\<close>\<close>

definition byHybridScore :: "SearchResult \<Rightarrow> SearchResult \<Rightarrow> jsnum" where
  "byHybridScore a b = js_sub (js_or0 (r_hybridScore b)) (js_or0 (r_hybridScore a))"

definition buildScoreMap ::
  "HybridRetriever \<Rightarrow> VectorSearchResult list \<Rightarrow> KeywordSearchResult list \<Rightarrow> (int \<times> ScoreEntry) list" where
  "buildScoreMap this vectorResults keywordResults =
     foldl (keyword_step this)
       (foldl (vector_step this) [] (enumerate 0 vectorResults))
       (enumerate 0 keywordResults)"

definition mergeResultsWithRRF ::
  "HybridRetriever \<Rightarrow> VectorSearchResult list \<Rightarrow> KeywordSearchResult list \<Rightarrow> SearchResult list" where
  "mergeResultsWithRRF this vectorResults keywordResults =
     take (limit this)
       (js_sort byHybridScore
          (map finalize (map_values (buildScoreMap this vectorResults keywordResults))))"

subsection \<open>Vector search\<close>

text \<open>
  The statement of \<open>vectorSearch\<close>, line by line as its template literal has it. The
  fourth line of the text is \<open>const keywords = this.extractKeywords(query);\<close>.
\<close>

definition vectorSearch_statement :: "sql_line list" where
  "vectorSearch_statement =
     [SELECT_id_content_similarity,
      FROM_Knowledge,
      WHERE_userId_is_2,
      NOT_SQL (asc ''const keywords = this.extractKeywords(query);''),
      ORDER_BY_distance,
      LIMIT_4]"

text \<open>
  \<open>vectorSearch\<close>: whatever is thrown by \<open>embedQuery\<close>, \<open>connect\<close> or \<open>query\<close> is caught,
  and the result is then the empty list.
\<close>

definition vectorSearch :: "HybridRetriever \<Rightarrow> jsstring \<Rightarrow> VectorSearchResult list" where
  "vectorSearch this query =
     (case embeddings this query of
        None \<Rightarrow> []
      | Some queryEmbedding \<Rightarrow>
          if \<not> connectable (pool this) then []
          else
            (case query_similarity (pool this) vectorSearch_statement
                    queryEmbedding (userId this) (minSimilarity this) (limit this * 2) of
               Inl error \<Rightarrow> []
             | Inr rows \<Rightarrow>
                 map (\<lambda>row. \<lparr> v_id = kn_id (fst row), v_content = kn_content (fst row),
                              v_similarity = snd row \<rparr>) rows))"

text \<open>
  \<open>VectorStoreService.similaritySearch\<close>, the other similarity search of the
  repository. Its statement has the floor condition. It catches nothing.
\<close>

definition similaritySearch_statement :: "sql_line list" where
  "similaritySearch_statement =
     [SELECT_id_content_similarity,
      FROM_Knowledge,
      WHERE_userId_is_2,
      AND_similarity_at_least_3,
      ORDER_BY_distance,
      LIMIT_4]"

definition similaritySearch ::
  "Pool \<Rightarrow> Embeddings \<Rightarrow> jsstring \<Rightarrow> nat \<Rightarrow> nat option \<Rightarrow> real option
     \<Rightarrow> js_error + VectorSearchResult list" where
  "similaritySearch pl emb query uid k minSim =
     (case emb query of
        None \<Rightarrow> Inl Thrown
      | Some queryEmbedding \<Rightarrow>
          if \<not> connectable pl then Inl Thrown
          else
            (case query_similarity pl similaritySearch_statement
                    queryEmbedding uid (nullish minSim (3 / 10)) (nullish k 5) of
               Inl error \<Rightarrow> Inl error
             | Inr rows \<Rightarrow>
                 Inr (map (\<lambda>row. \<lparr> v_id = kn_id (fst row), v_content = kn_content (fst row),
                                   v_similarity = snd row \<rparr>) rows)))"

subsection \<open>Keyword search\<close>

text \<open>The stop words of the retriever's own \<open>extractKeywords\<close> (Chinese, then English), in the order of the source.\<close>

definition retrieverStopWords :: "jsstring list" where
  "retrieverStopWords =
    [[30340], [20102], [26159], [22312], [25105], [26377], [21644], [23601], [19981],
     [20154], [37117], [19968], [19968, 20010], [19978], [20063], [24456], [21040],
     [35828], [35201], [21435], [20320], [20250], [30528], [27809, 26377], [30475],
     [22909], [33258, 24049], [36825], [37027], [20160, 20040], [24590, 20040],
     [22914, 20309], [20026, 20160, 20040], [21738, 20123], [21738, 20010], [35831],
     [33021], [21487, 20197], [24110], [24110, 25105], [21578, 35785], [20171, 32461],
     [20851, 20110], [20197, 21450], [25110, 32773], [24182, 19988], asc ''the'',
     asc ''a'', asc ''an'', asc ''is'', asc ''are'', asc ''was'', asc ''were'', asc ''be'',
     asc ''been'', asc ''being'', asc ''have'', asc ''has'', asc ''had'', asc ''do'',
     asc ''does'', asc ''did'', asc ''will'', asc ''would'', asc ''could'', asc ''should'',
     asc ''may'', asc ''might'', asc ''can'', asc ''must'', asc ''shall'', asc ''of'',
     asc ''to'', asc ''in'', asc ''for'', asc ''on'', asc ''with'', asc ''at'', asc ''by'',
     asc ''from'', asc ''as'', asc ''into'', asc ''through'', asc ''during'',
     asc ''before'', asc ''after'', asc ''above'', asc ''below'', asc ''between'',
     asc ''under'', asc ''again'', asc ''further'', asc ''then'', asc ''once'',
     asc ''here'', asc ''there'', asc ''when'', asc ''where'', asc ''why'', asc ''how'',
     asc ''all'', asc ''each'', asc ''few'', asc ''more'', asc ''most'', asc ''other'',
     asc ''some'', asc ''such'', asc ''no'', asc ''nor'', asc ''not'', asc ''only'',
     asc ''own'', asc ''same'', asc ''so'', asc ''than'', asc ''too'', asc ''very'',
     asc ''just'', asc ''and'', asc ''but'', asc ''if'', asc ''or'', asc ''because'',
     asc ''as'', asc ''until'', asc ''while'', asc ''about'', asc ''against'',
     asc ''between'', asc ''into'', asc ''through'', asc ''what'', asc ''which'',
     asc ''who'', asc ''whom'', asc ''this'', asc ''that'', asc ''these'', asc ''those'',
     asc ''am'', asc ''it'', asc ''its'', asc ''my'', asc ''your'', asc ''his'',
     asc ''her'', asc ''our'', asc ''i'', asc ''me'', asc ''they'', asc ''we'', asc ''us'',
     asc ''him'', asc ''them'']"

text \<open>The words of one run of Chinese characters: its 2- to 4-grams, then the run itself.\<close>

definition segmentWords :: "jsstring \<Rightarrow> jsstring list" where
  "segmentWords segment =
     filter (\<lambda>word. word \<notin> set retrieverStopWords)
       (concat (map (\<lambda>len. ngrams len segment) [2 ..< Suc (min 4 (length segment))]))
     @ (if 2 \<le> length segment \<and> segment \<notin> set retrieverStopWords then [segment] else [])"

text \<open>
  \<open>extractKeywords\<close> of the retriever: the tokenizer service's \<open>extractKeywords(query, 10)\<close>
  when the retriever has one, else its own extraction.
\<close>

definition hr_extractKeywords :: "HybridRetriever \<Rightarrow> jsstring \<Rightarrow> jsstring list" where
  "hr_extractKeywords this query =
     (case hr_tokenizerService this of
        Some tokenizer \<Rightarrow> extractKeywords tokenizer query (Some 10)
      | None \<Rightarrow>
          take 10
            (insertion_order
               (filter (\<lambda>lowerWord. 2 \<le> length lowerWord \<and> lowerWord \<notin> set retrieverStopWords)
                  (map toLowerCase (match_runs isLatinLetter query))
                @ concat (map segmentWords (match_runs isChineseChar query)))))"

text \<open>\<open>str.replace(/c/g, by)\<close> for a single character \<open>c\<close>.\<close>

definition replaceAll :: "nat \<Rightarrow> jsstring \<Rightarrow> jsstring \<Rightarrow> jsstring" where
  "replaceAll c by str = concat (map (\<lambda>x. if x = c then by else [x]) str)"

text \<open>
  \<open>escapeSQL\<close>: a quote (39) is doubled, then \<open>%\<close> (37) and \<open>_\<close> (95) are each preceded
  by a backslash (92).
\<close>

definition escapeSQL :: "jsstring \<Rightarrow> jsstring" where
  "escapeSQL str = replaceAll 95 [92, 95] (replaceAll 37 [92, 37] (replaceAll 39 [39, 39] str))"

text \<open>The text between the quotes of \<open>content ILIKE '%${this.escapeSQL(kw)}%'\<close>.\<close>

definition likeLiteral :: "jsstring \<Rightarrow> jsstring" where
  "likeLiteral kw = [37] @ escapeSQL kw @ [37]"

definition keywordSearch :: "HybridRetriever \<Rightarrow> jsstring \<Rightarrow> KeywordSearchResult list" where
  "keywordSearch this query =
     (let keywords = hr_extractKeywords this query in
      if keywords = [] then []
      else if \<not> connectable (pool this) then []
      else
        (case query_keywords (pool this) (map likeLiteral keywords) (userId this) (limit this * 2) of
           Inl error \<Rightarrow> []
         | Inr rows \<Rightarrow>
             map (\<lambda>row. \<lparr> k_id = kn_id (fst row), k_fileName = kn_fileName (fst row),
                          k_content = kn_content (fst row), k_preview = kn_preview (fst row),
                          k_size = kn_size (fst row), k_type = kn_type (fst row),
                          k_matchCount = int (snd row) \<rparr>) rows))"

subsection \<open>The BM25 rerank stage\<close>

text \<open>The body of \<open>results.map((result) => ...)\<close> in \<open>rerankWithBM25\<close>.\<close>

definition rerankOne ::
  "HybridRetriever \<Rightarrow> (jsstring \<times> jsnum) list \<Rightarrow> jsnum \<Rightarrow> jsnum \<Rightarrow> SearchResult \<Rightarrow> SearchResult" where
  "rerankOne this bm25Scores maxRRFScore maxBM25Score result =
     (let bm25Score = nullish (map_get bm25Scores (js_String (r_id result))) (Fin 0);
          normalizedBM25Score = js_div bm25Score maxBM25Score;
          normalizedRRFScore = js_div (js_or0 (r_hybridScore result)) maxRRFScore;
          rrfWeight = js_sub (Fin 1) (Fin (bm25Weight this));
          finalScore = js_add (js_mul normalizedRRFScore rrfWeight)
                              (js_mul normalizedBM25Score (Fin (bm25Weight this)))
      in result \<lparr> r_hybridScore := finalScore \<rparr>)"

text \<open>
  \<open>rerankWithBM25\<close>. Without a service, \<open>this.bm25IndexService?.hasIndex(...)\<close> is
  \<open>undefined\<close> and the results are returned. Whatever a call of the service throws is
  caught, and the results are returned.
\<close>

definition rerankWithBM25 :: "HybridRetriever \<Rightarrow> jsstring \<Rightarrow> SearchResult list \<Rightarrow> SearchResult list" where
  "rerankWithBM25 this query results =
     (if results = [] then results
      else
        (case hr_bm25IndexService this of
           None \<Rightarrow> results
         | Some service \<Rightarrow>
             (case svc_hasIndex service (userId this) of
                Inl error \<Rightarrow> results
              | Inr has \<Rightarrow>
                  if \<not> has then results
                  else
                    (case svc_getScoresForDocuments service (userId this) query
                            (map (\<lambda>r. js_String (r_id r)) results) of
                       Inl error \<Rightarrow> results
                     | Inr bm25Scores \<Rightarrow>
                         js_sort byHybridScore
                           (map (rerankOne this bm25Scores
                                   (js_max (map (\<lambda>r. js_or0 (r_hybridScore r)) results @ [Fin (1 / 1000)]))
                                   (js_max (map snd bm25Scores @ [Fin (1 / 1000)])))
                              results)))))"

subsection \<open>The retriever's entry points\<close>

record Document =
  pageContent :: jsstring
  m_id :: int
  m_fileName :: jsstring
  m_similarity :: real
  m_keywordScore :: int
  m_hybridScore :: jsnum

definition convertToDocuments :: "SearchResult list \<Rightarrow> Document list" where
  "convertToDocuments results =
     map (\<lambda>result. \<lparr> pageContent = r_content result, m_id = r_id result,
                     m_fileName = r_fileName result, m_similarity = r_similarity result,
                     m_keywordScore = r_keywordScore result,
                     m_hybridScore = r_hybridScore result \<rparr>) results"

text \<open>\<open>getSearchResults\<close>: both searches, the fusion, and the rerank stage when it is enabled and a service is given.\<close>

definition getSearchResults :: "HybridRetriever \<Rightarrow> jsstring \<Rightarrow> SearchResult list" where
  "getSearchResults this query =
     (let mergedResults = mergeResultsWithRRF this (vectorSearch this query) (keywordSearch this query)
      in if useBM25Rerank this \<and> hr_bm25IndexService this \<noteq> None
         then rerankWithBM25 this query mergedResults
         else mergedResults)"

text \<open>
  \<open>_getRelevantDocuments\<close>: the same steps inside a \<open>try\<close> whose \<open>catch\<close> logs and throws
  again. Each step returns a value, so the result is never the error.
\<close>

definition getRelevantDocuments :: "HybridRetriever \<Rightarrow> jsstring \<Rightarrow> js_error + Document list" where
  "getRelevantDocuments this query =
     (let mergedResults = mergeResultsWithRRF this (vectorSearch this query) (keywordSearch this query);
          reranked = (if useBM25Rerank this \<and> hr_bm25IndexService this \<noteq> None
                      then rerankWithBM25 this query mergedResults
                      else mergedResults)
      in Inr (convertToDocuments reranked))"

section \<open>Notions and inputs of the theorems\<close>

subsection \<open>Rank fusion: the fused score\<close>

definition defaultOptions :: HybridRetrieverOptions where
  "defaultOptions =
     \<lparr> o_limit = None, o_minSimilarity = None, o_rrfK = None, o_vectorWeight = None,
       o_keywordWeight = None, o_useBM25Rerank = None, o_bm25Weight = None,
       o_bm25IndexService = None, o_tokenizerService = None \<rparr>"

text \<open>A store with no row that cannot be reached, and an embedding model that throws.\<close>

definition noPool :: Pool where
  "noPool = \<lparr> knowledge = [], connectable = False, cosineDistance = (\<lambda>a b. 0) \<rparr>"

definition noEmbeddings :: Embeddings where
  "noEmbeddings = (\<lambda>text. None)"

definition vecA :: VectorSearchResult where
  "vecA = \<lparr> v_id = 1, v_content = asc ''alpha'', v_similarity = 9 / 10 \<rparr>"

definition kwA :: KeywordSearchResult where
  "kwA = \<lparr> k_id = 1, k_fileName = asc ''a.txt'', k_content = asc ''alpha'',
            k_preview = asc ''al'', k_size = 5, k_type = asc ''txt'', k_matchCount = 1 \<rparr>"

subsection \<open>Rank fusion: the order of the fused list\<close>








subsection \<open>Keyword extraction\<close>

definition appleText :: jsstring where
  "appleText = asc ''apple banana banana''"

subsection \<open>The index service: access times, eviction and the document count\<close>

text \<open>The \<open>lastAccessed\<close> stamp of a tenant's index, if the tenant has one.\<close>

definition lastAccessedOf :: "BM25IndexService \<Rightarrow> nat \<Rightarrow> int option" where
  "lastAccessedOf this uid = map_option lastAccessed (map_get (indexCache this) (getIndexKey uid))"

text \<open>
  A call of \<open>hasIndex\<close> or \<open>getDocumentCount\<close> at time \<open>now\<close>, in the shape of the other
  operations: the service after the call, and the value returned. Neither method assigns
  anything, so the service is returned as it was.
\<close>

definition hasIndex_call :: "BM25IndexService \<Rightarrow> int \<Rightarrow> nat \<Rightarrow> BM25IndexService \<times> bool" where
  "hasIndex_call this now uid = (this, hasIndex this uid)"

definition getDocumentCount_call :: "BM25IndexService \<Rightarrow> int \<Rightarrow> nat \<Rightarrow> BM25IndexService \<times> int" where
  "getDocumentCount_call this now uid = (this, getDocumentCount this uid)"

definition emptyIndexAt0 :: BM25IndexService where
  "emptyIndexAt0 = buildIndex (newBM25IndexService fallbackService) 0 7 [] noIndexOptions"

text \<open>
  Every document of a store stands under its own id: \<open>addDoc\<close> files a document under
  \<open>doc.id\<close>. The service keeps this from its construction on.
\<close>

definition storesById :: "BM25IndexService \<Rightarrow> bool" where
  "storesById this =
     list_all (\<lambda>kv. list_all (\<lambda>rd. d_id (i_doc (snd rd)) = fst rd) (documentStore (entry_index (snd kv))))
       (indexCache this)"

definition keyedStore :: "ElasticlunrIndex \<Rightarrow> bool" where
  "keyedStore ix = list_all (\<lambda>rd. d_id (i_doc (snd rd)) = fst rd) (documentStore ix)"





subsection \<open>The rerank stage\<close>

text \<open>A finite number that is not negative; a finite number between 0 and 1.\<close>

fun nonneg :: "jsnum \<Rightarrow> bool" where
  "nonneg (Fin a) = (0 \<le> a)"
| "nonneg other = False"

fun in_unit_interval :: "jsnum \<Rightarrow> bool" where
  "in_unit_interval (Fin a) = (0 \<le> a \<and> a \<le> 1)"
| "in_unit_interval other = False"

text \<open>
  The fused result of C1, with the score the code gives it, and three services: one
  that has an index and scores document 1 with 2, one that has an index and throws when
  asked for scores, one that has no index.
\<close>

definition fusedA :: SearchResult where
  "fusedA = \<lparr> r_id = 1, r_fileName = asc ''a.txt'', r_content = asc ''alpha'',
              r_preview = asc ''al'', r_size = 5, r_type = asc ''txt'', r_similarity = 9 / 10,
              r_keywordScore = 1, r_hybridScore = NaN \<rparr>"

definition scoringService :: BM25IndexServiceHandle where
  "scoringService =
     \<lparr> svc_hasIndex = (\<lambda>uid. Inr True),
       svc_getScoresForDocuments = (\<lambda>uid query documentIds. Inr [(asc ''1'', Fin 2)]) \<rparr>"

definition throwingService :: BM25IndexServiceHandle where
  "throwingService =
     \<lparr> svc_hasIndex = (\<lambda>uid. Inr True),
       svc_getScoresForDocuments = (\<lambda>uid query documentIds. Inl Thrown) \<rparr>"

definition noIndexService :: BM25IndexServiceHandle where
  "noIndexService =
     \<lparr> svc_hasIndex = (\<lambda>uid. Inr False),
       svc_getScoresForDocuments = (\<lambda>uid query documentIds. Inr []) \<rparr>"

definition rerankOptions :: "BM25IndexServiceHandle \<Rightarrow> HybridRetrieverOptions" where
  "rerankOptions service =
     defaultOptions \<lparr> o_useBM25Rerank := Some True, o_bm25IndexService := Some service \<rparr>"

definition rerankingRetriever :: "real option \<Rightarrow> BM25IndexServiceHandle \<Rightarrow> HybridRetriever" where
  "rerankingRetriever weight service =
     HybridRetriever_constructor noPool noEmbeddings 7
       ((rerankOptions service) \<lparr> o_bm25Weight := weight \<rparr>)"

text \<open>
  Two more services that have an index: one scores document 1 with \<open>-1\<close>, one with
  \<open>NaN\<close>.
\<close>

definition negativeScoreService :: BM25IndexServiceHandle where
  "negativeScoreService =
     \<lparr> svc_hasIndex = (\<lambda>uid. Inr True),
       svc_getScoresForDocuments = (\<lambda>uid query documentIds. Inr [(asc ''1'', Fin (- 1))]) \<rparr>"

definition nanScoreService :: BM25IndexServiceHandle where
  "nanScoreService =
     \<lparr> svc_hasIndex = (\<lambda>uid. Inr True),
       svc_getScoresForDocuments = (\<lambda>uid query documentIds. Inr [(asc ''1'', NaN)]) \<rparr>"

subsection \<open>Keyword search: escaping and matching\<close>

text \<open>\<open>escapeSQL\<close> in one pass, and its two layers: the escaping for \<open>LIKE\<close>, then the doubling of quotes.\<close>

definition escapeChar :: "nat \<Rightarrow> jsstring" where
  "escapeChar c = (if c = 39 then [39, 39] else if c = 37 then [92, 37] else if c = 95 then [92, 95] else [c])"

definition likeEscapeChar :: "nat \<Rightarrow> jsstring" where
  "likeEscapeChar c = (if c = 37 then [92, 37] else if c = 95 then [92, 95] else [c])"

definition likeEscape :: "jsstring \<Rightarrow> jsstring" where
  "likeEscape kw = concat (map likeEscapeChar kw)"

definition quoteEscape :: "jsstring \<Rightarrow> jsstring" where
  "quoteEscape s = concat (map (\<lambda>c. if c = 39 then [39, 39] else [c]) s)"

text \<open>
  The predicate the server evaluates for one keyword: the pattern it reads from the
  literal the retriever wrote, matched against the content by \<open>ILIKE\<close>.
\<close>

definition keywordMatches :: "jsstring \<Rightarrow> jsstring \<Rightarrow> bool" where
  "keywordMatches kw content =
     (case read_pattern (likeLiteral kw) of None \<Rightarrow> False | Some pattern \<Rightarrow> ilike pattern content)"





subsection \<open>Vector search\<close>

text \<open>
  The scenario of C2: the tenant 7 has the documents A (id 1) and B (id 2), at
  similarity 0.9 and 0.4 to the query; no document contains the query's keyword; the
  floor is 0.3. The distance of the store is read off the first component of the
  row's vector.
\<close>

definition distanceByFirst :: "real list \<Rightarrow> real list \<Rightarrow> real" where
  "distanceByFirst a b = 1 - (case a of [] \<Rightarrow> 0 | x # xs \<Rightarrow> x)"

definition rowA :: KnowledgeRow where
  "rowA = \<lparr> kn_id = 1, kn_userId = 7, kn_fileName = asc ''a.txt'', kn_content = asc ''alpha'',
            kn_preview = asc ''al'', kn_size = 5, kn_type = asc ''txt'', kn_embedding = [9 / 10] \<rparr>"

definition rowB :: KnowledgeRow where
  "rowB = \<lparr> kn_id = 2, kn_userId = 7, kn_fileName = asc ''b.txt'', kn_content = asc ''beta'',
            kn_preview = asc ''be'', kn_size = 4, kn_type = asc ''txt'', kn_embedding = [4 / 10] \<rparr>"

definition poolAB :: Pool where
  "poolAB = \<lparr> knowledge = [rowB, rowA], connectable = True, cosineDistance = distanceByFirst \<rparr>"

definition embedAny :: Embeddings where
  "embedAny = (\<lambda>text. Some [1])"

definition retrieverAB :: HybridRetriever where
  "retrieverAB = HybridRetriever_constructor poolAB embedAny 7
                   (defaultOptions \<lparr> o_minSimilarity := Some (3 / 10) \<rparr>)"

section \<open>Rank fusion: the fused score\<close>

lemmas merge_defs =
  mergeResultsWithRRF_def buildScoreMap_def HybridRetriever_constructor_def nullish_def
  enumerate_eq_zip vector_step_def keyword_step_def map_get_def map_values_def finalize_def
  js_sort_def rrfScore_def byHybridScore_def js_sub_def

text \<open>
  Whatever the options say, the object the constructor returns has no \<open>rrfK\<close>, so every
  reciprocal-rank term is \<open>NaN\<close>.
\<close>

lemma constructor_rrfK: "rrfK (HybridRetriever_constructor pl emb uid options) = None"
  by (simp add: HybridRetriever_constructor_def)

lemma rrfScore_constructor: "rrfScore (HybridRetriever_constructor pl emb uid options) index = NaN"
  by (simp add: rrfScore_def constructor_rrfK)

text \<open>
  Had the object an \<open>rrfK\<close> of 60, the item at rank 1 in both lists would score
  \<open>0.7 / 61 + 0.3 / 61 = 1 / 61\<close>.
\<close>

lemma merge_with_rrfK_60:
  "map r_hybridScore
     (mergeResultsWithRRF ((HybridRetriever_constructor noPool noEmbeddings 7 defaultOptions) \<lparr> rrfK := Some 60 \<rparr>)
        [vecA] [kwA]) = [Fin (1 / 61)]"
  by (simp add: merge_defs defaultOptions_def vecA_def kwA_def)

text \<open>
  C1 (rank fusion assigns each item the sum of \<open>weight / (k + rank)\<close> over the lists that
  hold it, with \<open>k = 60\<close> unless the caller supplies \<open>rrfK\<close>; an item at rank 1 in both
  lists gets \<open>vectorWeight / (k + 1) + keywordWeight / (k + 1)\<close>). The code does not do
  this: for a retriever built by the constructor with \<open>rrfK: 60\<close> and the default weights,
  the item at rank 1 in both lists gets the score \<open>NaN\<close>, not \<open>0.7 / 61 + 0.3 / 61\<close>.
\<close>

theorem C1_rank1_in_both_scores_NaN:
  "mergeResultsWithRRF
     (HybridRetriever_constructor noPool noEmbeddings 7 (defaultOptions \<lparr> o_rrfK := Some 60 \<rparr>)) [vecA] [kwA]
   = [\<lparr> r_id = 1, r_fileName = asc ''a.txt'', r_content = asc ''alpha'',
        r_preview = asc ''al'', r_size = 5, r_type = asc ''txt'', r_similarity = 9 / 10,
        r_keywordScore = 1, r_hybridScore = NaN \<rparr>]"
  by (simp add: merge_defs defaultOptions_def vecA_def kwA_def)

section \<open>Rank fusion: the order of the fused list\<close>











lemma prefix_filter_take: "prefix (filter P (take n xs)) (filter P xs)"
proof -
  have "filter P xs = filter P (take n xs) @ filter P (drop n xs)"
    by (metis append_take_drop_id filter_append)
  then show ?thesis by (simp add: prefix_def)
qed





lemma map_get_map_set: "map_get (map_set m k v) k' = (if k' = k then Some v else map_get m k')"
  unfolding map_get_def by (induction m) auto




text \<open>The keys of the score map come in the order of their first insertion.\<close>

lemma keys_map_set:
  "map fst (map_set m k v) = (if k \<in> set (map fst m) then map fst m else map fst m @ [k])"
  by (induction m) force+
















section \<open>Keyword extraction\<close>

lemma distinct_insertion_order_from:
  "distinct acc \<Longrightarrow> distinct (foldl (\<lambda>acc x. if x \<in> set acc then acc else acc @ [x]) acc xs)"
  by (induction xs arbitrary: acc) auto

lemma distinct_insertion_order: "distinct (insertion_order xs)"
  unfolding insertion_order_def by (rule distinct_insertion_order_from) simp

text \<open>\<open>tokenize\<close> ends with \<open>[...new Set(processed)]\<close>: no token comes twice.\<close>

lemma distinct_tokenize: "distinct (tokenize this text options)"
  by (simp add: tokenize_def postProcess_def distinct_insertion_order)

lemma map_set_fresh: "k \<notin> fst ` set m \<Longrightarrow> map_set m k v = m @ [(k, v)]"
  by (induction m) auto

text \<open>So the frequency map counts every token once.\<close>

lemma countToken_distinct:
  "distinct (map fst m @ ts) \<Longrightarrow> foldl countToken m ts = m @ map (\<lambda>t. (t, 1)) ts"
proof (induction ts arbitrary: m)
  case Nil
  then show ?case by simp
next
  case (Cons t ts)
  from Cons.prems have fresh: "t \<notin> fst ` set m" by auto
  then have "map_get m t = None"
    by (simp add: map_get_def map_of_eq_None_iff)
  with fresh have step: "countToken m t = m @ [(t, 1)]"
    by (simp add: countToken_def nullish_def map_set_fresh)
  from Cons.prems have "distinct (map fst (m @ [(t, 1)]) @ ts)" by auto
  from Cons.IH [OF this] step show ?case by simp
qed

text \<open>Sorting entries that all count 1 moves nothing.\<close>

lemma js_sort_all_ones:
  "js_sort byFrequency (map (\<lambda>t. (t, 1)) ts) = map (\<lambda>t. (t, 1)) ts"
proof (induction ts)
  case Nil
  then show ?case by (simp add: js_sort_def)
next
  case (Cons t ts)
  have "js_insort byFrequency (t, 1) (map (\<lambda>t. (t, 1)) ts) = (t, 1) # map (\<lambda>t. (t, 1)) ts"
    by (cases ts) (simp_all add: byFrequency_def js_sub_def)
  with Cons show ?case by (simp add: js_sort_def)
qed

text \<open>
  What \<open>extractKeywords\<close> computes: the first \<open>maxKeywords\<close> distinct tokens in the order
  of their first occurrence. How often a token occurs in the text plays no part.
\<close>

lemma extractKeywords_first_tokens:
  "extractKeywords this text maxKeywords =
     take (nullish maxKeywords 10) (tokenize this text extractKeywordsOptions)"
proof -
  let ?ts = "tokenize this text extractKeywordsOptions"
  have "foldl countToken [] ?ts = map (\<lambda>t. (t, 1)) ?ts"
    using countToken_distinct [of "[]" ?ts] by (simp add: distinct_tokenize)
  then have "js_sort byFrequency (foldl countToken [] ?ts) = map (\<lambda>t. (t, 1)) ?ts"
    by (simp only: js_sort_all_ones)
  then show ?thesis
    unfolding extractKeywords_def by (simp add: take_map comp_def)
qed

lemma appleText_units:
  "appleText =
     [97, 112, 112, 108, 101, 32, 98, 97, 110, 97, 110, 97, 32, 98, 97, 110, 97, 110, 97]"
  by (simp add: appleText_def asc_def)

lemma ENGLISH_STOP_WORDS_units:
  "ENGLISH_STOP_WORDS =
    [[116, 104, 101], [97], [97, 110], [105, 115], [97, 114, 101], [119, 97, 115],
     [119, 101, 114, 101], [98, 101], [98, 101, 101, 110], [98, 101, 105, 110, 103],
     [104, 97, 118, 101], [104, 97, 115], [104, 97, 100], [100, 111], [100, 111, 101, 115],
     [100, 105, 100], [119, 105, 108, 108], [119, 111, 117, 108, 100],
     [99, 111, 117, 108, 100], [115, 104, 111, 117, 108, 100], [109, 97, 121],
     [109, 105, 103, 104, 116], [99, 97, 110], [109, 117, 115, 116],
     [115, 104, 97, 108, 108], [111, 102], [116, 111], [105, 110], [102, 111, 114],
     [111, 110], [119, 105, 116, 104], [97, 116], [98, 121], [102, 114, 111, 109],
     [97, 115], [105, 110, 116, 111], [116, 104, 114, 111, 117, 103, 104],
     [100, 117, 114, 105, 110, 103], [98, 101, 102, 111, 114, 101],
     [97, 102, 116, 101, 114], [97, 98, 111, 118, 101], [98, 101, 108, 111, 119],
     [98, 101, 116, 119, 101, 101, 110], [117, 110, 100, 101, 114],
     [97, 103, 97, 105, 110], [102, 117, 114, 116, 104, 101, 114], [116, 104, 101, 110],
     [111, 110, 99, 101], [104, 101, 114, 101], [116, 104, 101, 114, 101],
     [119, 104, 101, 110], [119, 104, 101, 114, 101], [119, 104, 121], [104, 111, 119],
     [97, 108, 108], [101, 97, 99, 104], [102, 101, 119], [109, 111, 114, 101],
     [109, 111, 115, 116], [111, 116, 104, 101, 114], [115, 111, 109, 101],
     [115, 117, 99, 104], [110, 111], [110, 111, 114], [110, 111, 116],
     [111, 110, 108, 121], [111, 119, 110], [115, 97, 109, 101], [115, 111],
     [116, 104, 97, 110], [116, 111, 111], [118, 101, 114, 121], [106, 117, 115, 116],
     [97, 110, 100], [98, 117, 116], [105, 102], [111, 114],
     [98, 101, 99, 97, 117, 115, 101], [97, 115], [117, 110, 116, 105, 108],
     [119, 104, 105, 108, 101], [97, 98, 111, 117, 116], [97, 103, 97, 105, 110, 115, 116],
     [98, 101, 116, 119, 101, 101, 110], [105, 110, 116, 111],
     [116, 104, 114, 111, 117, 103, 104], [119, 104, 97, 116], [119, 104, 105, 99, 104],
     [119, 104, 111], [119, 104, 111, 109], [116, 104, 105, 115], [116, 104, 97, 116],
     [116, 104, 101, 115, 101], [116, 104, 111, 115, 101], [97, 109], [105, 116],
     [105, 116, 115], [109, 121], [121, 111, 117, 114], [104, 105, 115], [104, 101, 114],
     [116, 104, 101, 105, 114], [111, 117, 114], [105], [109, 101], [121, 111, 117],
     [104, 101], [115, 104, 101], [116, 104, 101, 121], [119, 101], [117, 115],
     [104, 105, 109], [116, 104, 101, 109]]"
  by (simp add: ENGLISH_STOP_WORDS_def asc_def)

lemma fallbackTokenize_appleText:
  "fallbackTokenize appleText = [asc ''apple'', asc ''banana'', asc ''banana'']"
  by (simp add: appleText_units asc_def fallbackTokenize_def match_runs_def isLatinLetter_def
      isChineseChar_def toLowerCase_def)

lemma apple_banana_no_stop_words:
  "\<not> isStopWord (asc ''apple'') \<and> \<not> isStopWord (asc ''banana'')"
  by (simp add: asc_def isStopWord_def toLowerCase_def CHINESE_STOP_WORDS_def
      ENGLISH_STOP_WORDS_units)

lemma appleText_not_blank: "appleText \<noteq> [] \<and> \<not> list_all isWhiteSpace appleText"
  by (simp add: appleText_units isWhiteSpace_def)

lemma tokenize_appleText:
  "tokenize fallbackService appleText extractKeywordsOptions = [asc ''apple'', asc ''banana'']"
proof -
  have "postProcess [asc ''apple'', asc ''banana'', asc ''banana''] True 2 50 =
        [asc ''apple'', asc ''banana'']"
    using apple_banana_no_stop_words
    by (simp add: postProcess_def insertion_order_def) (simp add: asc_def)
  then show ?thesis
    using appleText_not_blank
    by (simp add: tokenize_def fallbackService_def extractKeywordsOptions_def nullish_def
        fallbackTokenize_appleText)
qed


text \<open>
  C8 (\<open>extractKeywords\<close> ranks keywords by descending frequency in the text: a term that
  occurs more often never ranks after one that occurs less often; the result is cut to
  \<open>maxKeywords\<close>, 10 by default). The code does not rank by frequency: in
  \<open>apple banana banana\<close> the word \<open>banana\<close> occurs twice and \<open>apple\<close> once, yet \<open>apple\<close>
  ranks first, and with \<open>maxKeywords = 1\<close> it is \<open>banana\<close> that is cut.
\<close>

theorem C8_more_frequent_term_ranks_after:
  "count_list (fallbackTokenize appleText) (asc ''apple'') = 1 \<and>
   count_list (fallbackTokenize appleText) (asc ''banana'') = 2 \<and>
   extractKeywords fallbackService appleText None = [asc ''apple'', asc ''banana''] \<and>
   extractKeywords fallbackService appleText (Some 1) = [asc ''apple'']"
  by (simp add: extractKeywords_first_tokens tokenize_appleText fallbackTokenize_appleText
      nullish_def) (simp add: asc_def)

section \<open>The index service: access times, eviction and the document count\<close>

lemma map_get_map_delete: "map_get (map_delete m k) k' = (if k' = k then None else map_get m k')"
  unfolding map_get_def map_delete_def by (induction m) auto

lemma map_get_foldl_delete:
  "map_get (foldl map_delete m ks) k' = (if k' \<in> set ks then None else map_get m k')"
  by (induction ks arbitrary: m) (auto simp: map_get_map_delete)

lemma keys_map_delete: "fst ` set (map_delete m k) = fst ` set m - {k}"
  unfolding map_delete_def by auto

lemma lastAccessed_buildIndex: "lastAccessedOf (buildIndex this now uid docs opts) uid = Some now"
  by (simp add: lastAccessedOf_def buildIndex_def map_get_map_set)

lemma lastAccessed_addDocument: "lastAccessedOf (addDocument this now uid doc) uid = Some now"
  by (simp add: lastAccessedOf_def addDocument_def buildIndex_def map_get_map_set split: option.splits)

lemma lastAccessed_removeDocument:
  "hasIndex this uid \<Longrightarrow> lastAccessedOf (removeDocument this now uid docId) uid = Some now"
  by (auto simp: lastAccessedOf_def removeDocument_def hasIndex_def map_get_map_set split: option.splits)

lemma lastAccessed_search:
  "hasIndex this uid \<Longrightarrow> lastAccessedOf (fst (search this srch now uid q n)) uid = Some now"
  by (auto simp: lastAccessedOf_def search_def hasIndex_def map_get_map_set split: option.splits)

lemma lastAccessed_getScores:
  "hasIndex this uid \<Longrightarrow> lastAccessedOf (fst (getScoresForDocuments this srch now uid q ids)) uid = Some now"
  by (auto simp: lastAccessedOf_def getScoresForDocuments_def hasIndex_def map_get_map_set split: option.splits)

lemma map_get_filter_distinct:
  "distinct (map fst m) \<Longrightarrow> map_get m k = Some e \<Longrightarrow> (k \<in> fst ` set (filter P m)) = P (k, e)"
  unfolding map_get_def
  by (induction m) (auto split: if_splits simp: rev_image_eqI)

lemma sweep_entry:
  assumes "distinct (map fst (indexCache this))"
  shows "map_get (indexCache (cleanupIdleIndexes this now)) key =
     (case map_get (indexCache this) key of
        None \<Rightarrow> None
      | Some entry \<Rightarrow> if now - lastAccessed entry > 30 * 60 * 1000 then None else Some entry)"
proof (cases "map_get (indexCache this) key")
  case None
  then show ?thesis by (simp add: cleanupIdleIndexes_def map_get_foldl_delete)
next
  case (Some entry)
  have "(key \<in> set (keysToDelete this now)) = (now - lastAccessed entry > IDLE_TIMEOUT)"
    using map_get_filter_distinct [OF assms Some, of "\<lambda>kv. now - lastAccessed (snd kv) > IDLE_TIMEOUT"]
    by (simp add: keysToDelete_def)
  with Some show ?thesis
    by (simp add: cleanupIdleIndexes_def map_get_foldl_delete IDLE_TIMEOUT_def)
qed

lemma emptyIndexAt0_entry:
  "map_get (indexCache emptyIndexAt0) (getIndexKey 7) =
     Some \<lparr> entry_index = \<lparr> documentStore = [] \<rparr>, documentCount = 0, lastAccessed = 0,
            bm25_k1 = 12 / 10, bm25_b = 75 / 100 \<rparr>"
  by (simp add: emptyIndexAt0_def buildIndex_def newBM25IndexService_def map_get_def
      noIndexOptions_def nullish_def DEFAULT_BM25_K1_def DEFAULT_BM25_B_def)

lemma emptyIndexAt0_distinct: "distinct (map fst (indexCache emptyIndexAt0))"
  by (simp add: emptyIndexAt0_def buildIndex_def newBM25IndexService_def)

text \<open>The cache is a \<open>Map\<close>: a key stands in it once, from the construction on.\<close>

lemma distinct_keys_map_set: "distinct (map fst m) \<Longrightarrow> distinct (map fst (map_set m k v))"
  by (simp add: keys_map_set)

lemma distinct_keys_map_delete: "distinct (map fst m) \<Longrightarrow> distinct (map fst (map_delete m k))"
  by (simp add: map_delete_def distinct_map_filter)

lemma distinct_keys_foldl_delete:
  "distinct (map fst m) \<Longrightarrow> distinct (map fst (foldl map_delete m ks))"
  by (induction ks arbitrary: m) (simp_all add: distinct_keys_map_delete)

lemma distinct_keys_service:
  "distinct (map fst (indexCache (newBM25IndexService tok)))"
  "distinct (map fst (indexCache this)) \<Longrightarrow>
     distinct (map fst (indexCache (buildIndex this now uid docs opts)))"
  "distinct (map fst (indexCache this)) \<Longrightarrow>
     distinct (map fst (indexCache (addDocument this now uid doc)))"
  "distinct (map fst (indexCache this)) \<Longrightarrow>
     distinct (map fst (indexCache (removeDocument this now uid docId)))"
  "distinct (map fst (indexCache this)) \<Longrightarrow>
     distinct (map fst (indexCache (fst (search this srch now uid q n))))"
  "distinct (map fst (indexCache this)) \<Longrightarrow>
     distinct (map fst (indexCache (fst (getScoresForDocuments this srch now uid q docIds))))"
  "distinct (map fst (indexCache this)) \<Longrightarrow>
     distinct (map fst (indexCache (clearIndex this uid)))"
  "distinct (map fst (indexCache this)) \<Longrightarrow>
     distinct (map fst (indexCache (cleanupIdleIndexes this now)))"
  by (simp_all add: newBM25IndexService_def buildIndex_def addDocument_def removeDocument_def
      search_def getScoresForDocuments_def clearIndex_def cleanupIdleIndexes_def
      distinct_keys_map_set distinct_keys_map_delete distinct_keys_foldl_delete
      split: option.splits)

text \<open>
  C6, as stated (every read or write on a tenant's index, \<open>hasIndex\<close> and
  \<open>getDocumentCount\<close> included, updates the tenant's \<open>lastAccessed\<close>), fails. An index
  is built at time 0. \<open>hasIndex\<close> and \<open>getDocumentCount\<close> are called at minute 29: the
  stamp is still 0 afterwards, and the sweep at minute 31 removes the index, two minutes
  after it was last read.
\<close>

theorem C6_hasIndex_does_not_touch:
  "lastAccessedOf emptyIndexAt0 7 = Some 0 \<and>
   hasIndex_call emptyIndexAt0 (29 * 60 * 1000) 7 = (emptyIndexAt0, True) \<and>
   getDocumentCount_call emptyIndexAt0 (29 * 60 * 1000) 7 = (emptyIndexAt0, 0) \<and>
   lastAccessedOf (fst (hasIndex_call emptyIndexAt0 (29 * 60 * 1000) 7)) 7 \<noteq> Some (29 * 60 * 1000) \<and>
   \<not> hasIndex (cleanupIdleIndexes emptyIndexAt0 (31 * 60 * 1000)) 7"
  using sweep_entry [OF emptyIndexAt0_distinct, of "31 * 60 * 1000" "getIndexKey 7"]
  by (simp add: hasIndex_call_def getDocumentCount_call_def hasIndex_def getDocumentCount_def
      lastAccessedOf_def emptyIndexAt0_entry)

text \<open>
  C6, amended: \<open>buildIndex\<close> and \<open>addDocument\<close> set the tenant's \<open>lastAccessed\<close> to the
  current time; \<open>removeDocument\<close>, \<open>search\<close> and \<open>getScoresForDocuments\<close> do so when the
  tenant has an index; \<open>hasIndex\<close> and \<open>getDocumentCount\<close> leave the service as it is.
  The sweep removes exactly the indexes whose \<open>lastAccessed\<close> is more than 30 minutes
  before the time of the sweep, and leaves every other entry as it is.
\<close>

theorem C6_lastAccessed_and_sweep:
  assumes "distinct (map fst (indexCache this))"
  shows "lastAccessedOf (buildIndex this now uid docs opts) uid = Some now \<and>
         lastAccessedOf (addDocument this now uid doc) uid = Some now \<and>
         (hasIndex this uid \<longrightarrow>
            lastAccessedOf (removeDocument this now uid docId) uid = Some now \<and>
            lastAccessedOf (fst (search this srch now uid q n)) uid = Some now \<and>
            lastAccessedOf (fst (getScoresForDocuments this srch now uid q docIds)) uid = Some now) \<and>
         fst (hasIndex_call this now uid) = this \<and>
         fst (getDocumentCount_call this now uid) = this \<and>
         map_get (indexCache (cleanupIdleIndexes this now)) key =
           (case map_get (indexCache this) key of
              None \<Rightarrow> None
            | Some entry \<Rightarrow> if now - lastAccessed entry > 30 * 60 * 1000 then None else Some entry)"
  using sweep_entry [OF assms]
  by (simp add: lastAccessed_buildIndex lastAccessed_addDocument lastAccessed_removeDocument
      lastAccessed_search lastAccessed_getScores hasIndex_call_def getDocumentCount_call_def)

theorem C6_lastAccessed_and_sweep_witness:
  "distinct (map fst (indexCache emptyIndexAt0)) \<and>
   hasIndex emptyIndexAt0 7 \<and>
   lastAccessedOf (removeDocument emptyIndexAt0 (31 * 60 * 1000) 7 []) 7 = Some (31 * 60 * 1000) \<and>
   map_get (indexCache (cleanupIdleIndexes emptyIndexAt0 (31 * 60 * 1000))) (getIndexKey 7) = None"
  using C6_lastAccessed_and_sweep [OF emptyIndexAt0_distinct, where now = "31 * 60 * 1000" and uid = 7
      and docId = "[]" and key = "getIndexKey 7"]
    emptyIndexAt0_distinct
  by (simp add: hasIndex_def emptyIndexAt0_entry)

lemma list_all_map_set: "list_all P m \<Longrightarrow> P (k, v) \<Longrightarrow> list_all P (map_set m k v)"
  by (induction m) auto

lemma list_all_map_delete: "list_all P m \<Longrightarrow> list_all P (map_delete m k)"
  by (simp add: map_delete_def list_all_iff)

lemma list_all_map_get: "list_all P m \<Longrightarrow> map_get m k = Some v \<Longrightarrow> P (k, v)"
  unfolding map_get_def by (induction m) (auto split: if_splits)




lemma storesById_alt: "storesById this = list_all (\<lambda>kv. keyedStore (entry_index (snd kv))) (indexCache this)"
  by (simp add: storesById_def keyedStore_def)

lemma storesById_entry:
  "storesById this \<Longrightarrow> map_get (indexCache this) k = Some e \<Longrightarrow> keyedStore (entry_index e)"
  unfolding storesById_alt by (drule (1) list_all_map_get) simp








lemma search_no_index:
  "map_get (indexCache this) (getIndexKey uid) = None \<Longrightarrow> snd (search this srch now uid q n) = []"
  by (simp add: search_def)


lemma storesById_search: "storesById this \<Longrightarrow> storesById (fst (search this srch now uid q n))"
proof (cases "map_get (indexCache this) (getIndexKey uid)")
  case None
  assume "storesById this"
  with None show ?thesis by (simp add: search_def)
next
  case (Some e)
  assume s: "storesById this"
  then have "keyedStore (entry_index e)" using Some by (rule storesById_entry)
  with s Some show ?thesis
    by (simp add: search_def storesById_alt list_all_map_set)
qed

lemma storesById_getScoresForDocuments:
  "storesById this \<Longrightarrow> storesById (fst (getScoresForDocuments this srch now uid q docIds))"
proof (cases "map_get (indexCache this) (getIndexKey uid)")
  case None
  assume "storesById this"
  with None show ?thesis by (simp add: getScoresForDocuments_def)
next
  case (Some e)
  assume s: "storesById this"
  then have "keyedStore (entry_index e)" using Some by (rule storesById_entry)
  with s Some show ?thesis
    by (simp add: getScoresForDocuments_def storesById_alt list_all_map_set)
qed

lemma storesById_clearIndex: "storesById this \<Longrightarrow> storesById (clearIndex this uid)"
  by (simp add: clearIndex_def storesById_alt list_all_map_delete split: option.splits)

lemma storesById_cleanup: "storesById this \<Longrightarrow> storesById (cleanupIdleIndexes this now)"
proof -
  have "list_all P m \<Longrightarrow> list_all P (foldl map_delete m ks)" for P and m :: "(jsstring \<times> IndexEntry) list" and ks
    by (induction ks arbitrary: m) (simp_all add: list_all_map_delete)
  then show "storesById this \<Longrightarrow> storesById (cleanupIdleIndexes this now)"
    by (simp add: storesById_alt cleanupIdleIndexes_def)
qed




text \<open>
  C10: when the tenant has an index and no document is stored under the id,
  \<open>removeDocument\<close> still lowers \<open>documentCount\<close> by one and leaves the stored documents
  as they are. The witness removes an id from an index built from no document: the
  count is then \<open>-1\<close>, below the number of stored documents, which is 0.
\<close>

theorem C10_remove_absent_decrements:
  assumes "map_get (indexCache this) (getIndexKey uid) = Some entry"
      and "el_getDoc (entry_index entry) docId = None"
  shows "getDocumentCount (removeDocument this now uid docId) uid = getDocumentCount this uid - 1 \<and>
         map_option (\<lambda>e. documentStore (entry_index e))
           (map_get (indexCache (removeDocument this now uid docId)) (getIndexKey uid)) =
           Some (documentStore (entry_index entry))"
  using assms
  by (simp add: removeDocument_def getDocumentCount_def map_get_map_set el_removeDocByRef_def el_getDoc_def)

theorem C10_remove_absent_decrements_witness:
  "map_get (indexCache emptyIndexAt0) (getIndexKey 7) =
     Some \<lparr> entry_index = \<lparr> documentStore = [] \<rparr>, documentCount = 0, lastAccessed = 0,
            bm25_k1 = 12 / 10, bm25_b = 75 / 100 \<rparr> \<and>
   el_getDoc \<lparr> documentStore = [] \<rparr> (asc ''9'') = None \<and>
   getDocumentCount (removeDocument emptyIndexAt0 5 7 (asc ''9'')) 7 = - 1 \<and>
   map_option (\<lambda>e. documentStore (entry_index e))
     (map_get (indexCache (removeDocument emptyIndexAt0 5 7 (asc ''9''))) (getIndexKey 7)) = Some []"
proof -
  have g: "el_getDoc \<lparr> documentStore = [] \<rparr> (asc ''9'') = None"
    by (simp add: el_getDoc_def map_get_def)
  have "el_getDoc (entry_index \<lparr> entry_index = \<lparr> documentStore = [] \<rparr>, documentCount = 0,
          lastAccessed = 0, bm25_k1 = 12 / 10, bm25_b = 75 / 100 \<rparr>) (asc ''9'') = None"
    using g by simp
  from C10_remove_absent_decrements [OF emptyIndexAt0_entry this, of 5] g emptyIndexAt0_entry
  show ?thesis
    by (simp add: getDocumentCount_def)
qed

section \<open>The rerank stage\<close>

lemma nonnegE: "nonneg x \<Longrightarrow> (\<And>a. x = Fin a \<Longrightarrow> 0 \<le> a \<Longrightarrow> P) \<Longrightarrow> P"
  by (cases x) auto

lemma foldl_max_nonneg:
  "list_all nonneg xs \<Longrightarrow>
   \<exists>m. foldl js_max2 (Fin a) xs = Fin m \<and> a \<le> m \<and> (\<forall>x\<in>set xs. \<exists>h. x = Fin h \<and> h \<le> m)"
proof (induction xs arbitrary: a)
  case Nil
  then show ?case by simp
next
  case (Cons x xs)
  then obtain h where x: "x = Fin h" "0 \<le> h" by (auto elim: nonnegE)
  from Cons.prems have "list_all nonneg xs" by simp
  from Cons.IH [OF this, of "max a h"] obtain m where
    m: "foldl js_max2 (Fin (max a h)) xs = Fin m" "max a h \<le> m"
       "\<forall>x\<in>set xs. \<exists>h. x = Fin h \<and> h \<le> m" by blast
  with x show ?case by auto
qed

lemma js_max_floor:
  assumes "list_all nonneg xs"
  shows "\<exists>m. js_max (xs @ [Fin e]) = Fin m \<and> e \<le> m \<and> (\<forall>x\<in>set xs. \<exists>h. x = Fin h \<and> h \<le> m)"
proof (cases xs)
  case Nil
  then show ?thesis by (simp add: js_max_def)
next
  case (Cons x xs')
  with assms obtain h where x: "x = Fin h" by (auto elim: nonnegE)
  from assms have "list_all nonneg (xs' @ [Fin (max 0 e)])" using Cons by simp
  have all: "list_all nonneg xs'" using assms Cons by simp
  from foldl_max_nonneg [OF all, of h] obtain m1 where
    m1: "foldl js_max2 (Fin h) xs' = Fin m1" "h \<le> m1" "\<forall>x\<in>set xs'. \<exists>h. x = Fin h \<and> h \<le> m1"
    by blast
  have "js_max (xs @ [Fin e]) = Fin (max m1 e)"
    using Cons x m1(1) by (simp add: js_max_def)
  moreover have "\<forall>y\<in>set xs. \<exists>h. y = Fin h \<and> h \<le> max m1 e"
    using Cons x m1 by auto
  ultimately show ?thesis by auto
qed

lemma set_js_insort': "set (js_insort cmp x ys) = insert x (set ys)"
  by (induction ys) auto

lemma set_js_sort: "set (js_sort cmp xs) = set xs"
  unfolding js_sort_def by (induction xs) (simp_all add: set_js_insort')

lemma unit_fraction: "0 \<le> (a::real) \<Longrightarrow> a \<le> m \<Longrightarrow> 0 < m \<Longrightarrow> 0 \<le> a / m \<and> a / m \<le> 1"
  by (simp add: divide_le_eq)

lemma convex_unit:
  assumes "0 \<le> (x::real)" "x \<le> 1" "0 \<le> y" "y \<le> 1" "0 \<le> w" "w \<le> 1"
  shows "0 \<le> x * (1 - w) + y * w \<and> x * (1 - w) + y * w \<le> 1"
proof -
  have lo: "0 \<le> x * (1 - w)" "0 \<le> y * w" using assms by simp_all
  have "x * (1 - w) \<le> 1 * (1 - w)" using assms by (intro mult_right_mono) simp_all
  moreover have "y * w \<le> 1 * w" using assms by (intro mult_right_mono) simp_all
  ultimately have "x * (1 - w) + y * w \<le> (1 - w) + w" by simp
  with lo show ?thesis by simp
qed

lemma rerankOne_bound:
  assumes w: "0 \<le> bm25Weight this" "bm25Weight this \<le> 1"
      and h: "js_or0 (r_hybridScore result) = Fin hs" "0 \<le> hs" "hs \<le> mr" "0 < mr"
      and b: "nullish (map_get bm25Scores (js_String (r_id result))) (Fin 0) = Fin bs" "0 \<le> bs" "bs \<le> mb" "0 < mb"
  shows "in_unit_interval (r_hybridScore (rerankOne this bm25Scores (Fin mr) (Fin mb) result))"
proof -
  have 1: "0 \<le> hs / mr \<and> hs / mr \<le> 1" using h by (intro unit_fraction) simp_all
  have 2: "0 \<le> bs / mb \<and> bs / mb \<le> 1" using b by (intro unit_fraction) simp_all
  have "r_hybridScore (rerankOne this bm25Scores (Fin mr) (Fin mb) result) =
        Fin (hs / mr * (1 - bm25Weight this) + bs / mb * bm25Weight this)"
    using h b by (simp add: rerankOne_def Let_def js_sub_def)
  with convex_unit [of "hs / mr" "bs / mb" "bm25Weight this"] 1 2 w show ?thesis by simp
qed

lemma in_map_set: "x \<in> set (map_set m k v) \<Longrightarrow> x = (k, v) \<or> x \<in> set m"
  by (induction m) (auto split: if_splits)

lemma map_get_in_set: "map_get m k = Some e \<Longrightarrow> (k, e) \<in> set m"
  by (simp add: map_get_def map_of_SomeD)

lemma rrfScore_without_rrfK: "rrfK this = None \<Longrightarrow> rrfScore this i = NaN"
  by (simp add: rrfScore_def)

lemma vector_step_NaN:
  assumes "rrfK this = None"
      and "\<forall>kv\<in>set m. e_vectorScore (snd kv) = NaN \<or> e_keywordScore (snd kv) = NaN"
  shows "\<forall>kv\<in>set (vector_step this m iv). e_vectorScore (snd kv) = NaN \<or> e_keywordScore (snd kv) = NaN"
proof
  fix kv assume "kv \<in> set (vector_step this m iv)"
  then show "e_vectorScore (snd kv) = NaN \<or> e_keywordScore (snd kv) = NaN"
    using assms
    by (cases iv) (auto simp: vector_step_def rrfScore_without_rrfK dest!: in_map_set)
qed

lemma keyword_step_NaN:
  assumes "rrfK this = None"
      and "\<forall>kv\<in>set m. e_vectorScore (snd kv) = NaN \<or> e_keywordScore (snd kv) = NaN"
  shows "\<forall>kv\<in>set (keyword_step this m ik). e_vectorScore (snd kv) = NaN \<or> e_keywordScore (snd kv) = NaN"
proof
  fix kv assume "kv \<in> set (keyword_step this m ik)"
  then show "e_vectorScore (snd kv) = NaN \<or> e_keywordScore (snd kv) = NaN"
    using assms
    by (cases ik) (auto simp: keyword_step_def rrfScore_without_rrfK split: option.splits dest!: in_map_set)
qed

lemma foldl_vector_NaN:
  "rrfK this = None \<Longrightarrow>
   \<forall>kv\<in>set m. e_vectorScore (snd kv) = NaN \<or> e_keywordScore (snd kv) = NaN \<Longrightarrow>
   \<forall>kv\<in>set (foldl (vector_step this) m ivs). e_vectorScore (snd kv) = NaN \<or> e_keywordScore (snd kv) = NaN"
proof (induction ivs arbitrary: m)
  case Nil
  then show ?case by simp
next
  case (Cons iv ivs)
  from Cons.IH [OF Cons.prems(1) vector_step_NaN [OF Cons.prems]] show ?case by simp
qed

lemma foldl_keyword_NaN:
  "rrfK this = None \<Longrightarrow>
   \<forall>kv\<in>set m. e_vectorScore (snd kv) = NaN \<or> e_keywordScore (snd kv) = NaN \<Longrightarrow>
   \<forall>kv\<in>set (foldl (keyword_step this) m iks). e_vectorScore (snd kv) = NaN \<or> e_keywordScore (snd kv) = NaN"
proof (induction iks arbitrary: m)
  case Nil
  then show ?case by simp
next
  case (Cons ik iks)
  from Cons.IH [OF Cons.prems(1) keyword_step_NaN [OF Cons.prems]] show ?case by simp
qed

lemma js_add_NaN: "a = NaN \<or> b = NaN \<Longrightarrow> js_add a b = NaN"
  by (cases a; cases b) auto

lemma merge_without_rrfK:
  assumes "rrfK this = None" and "r \<in> set (mergeResultsWithRRF this vs ks)"
  shows "r_hybridScore r = NaN"
proof -
  have "\<forall>kv\<in>set (buildScoreMap this vs ks). e_vectorScore (snd kv) = NaN \<or> e_keywordScore (snd kv) = NaN"
    unfolding buildScoreMap_def
    by (rule foldl_keyword_NaN [OF assms(1)], rule foldl_vector_NaN [OF assms(1)]) simp
  moreover from assms(2) have "r \<in> set (map finalize (map_values (buildScoreMap this vs ks)))"
    by (auto simp: mergeResultsWithRRF_def set_js_sort dest: in_set_takeD)
  ultimately show ?thesis
    by (auto simp: map_values_def finalize_def js_add_NaN)
qed

lemma rerank_bound:
  assumes "0 \<le> bm25Weight this" and "bm25Weight this \<le> 1"
      and "list_all (\<lambda>r. nonneg (js_or0 (r_hybridScore r))) results"
      and "hr_bm25IndexService this = Some service"
      and "svc_hasIndex service (userId this) = Inr True"
      and "svc_getScoresForDocuments service (userId this) query
             (map (\<lambda>r. js_String (r_id r)) results) = Inr bm25Scores"
      and "list_all (\<lambda>kv. nonneg (snd kv)) bm25Scores"
  shows "list_all (\<lambda>r. in_unit_interval (r_hybridScore r)) (rerankWithBM25 this query results) \<and>
         rerankWithBM25 this query results =
           js_sort byHybridScore
             (map (rerankOne this bm25Scores
                     (js_max (map (\<lambda>r. js_or0 (r_hybridScore r)) results @ [Fin (1 / 1000)]))
                     (js_max (map snd bm25Scores @ [Fin (1 / 1000)])))
                results)"
proof (cases "results = []")
  case True
  then show ?thesis by (simp add: rerankWithBM25_def js_sort_def)
next
  case False
  let ?mr = "js_max (map (\<lambda>r. js_or0 (r_hybridScore r)) results @ [Fin (1 / 1000)])"
  let ?mb = "js_max (map snd bm25Scores @ [Fin (1 / 1000)])"
  have eq: "rerankWithBM25 this query results =
            js_sort byHybridScore (map (rerankOne this bm25Scores ?mr ?mb) results)"
    using False assms(4,5,6) by (simp add: rerankWithBM25_def)
  have "list_all nonneg (map (\<lambda>r. js_or0 (r_hybridScore r)) results)"
    using assms(3) by (simp add: list_all_iff)
  from js_max_floor [OF this, of "1 / 1000"] obtain mr where
    mr: "?mr = Fin mr" "1 / 1000 \<le> mr"
        "\<forall>x\<in>set (map (\<lambda>r. js_or0 (r_hybridScore r)) results). \<exists>h. x = Fin h \<and> h \<le> mr" by blast
  have "list_all nonneg (map snd bm25Scores)"
    using assms(7) by (simp add: list_all_iff)
  from js_max_floor [OF this, of "1 / 1000"] obtain mb where
    mb: "?mb = Fin mb" "1 / 1000 \<le> mb"
        "\<forall>x\<in>set (map snd bm25Scores). \<exists>h. x = Fin h \<and> h \<le> mb" by blast
  have one: "in_unit_interval (r_hybridScore (rerankOne this bm25Scores ?mr ?mb r))"
    if r: "r \<in> set results" for r
  proof -
    from assms(3) r have "nonneg (js_or0 (r_hybridScore r))" by (simp add: list_all_iff)
    then obtain hs where hs: "js_or0 (r_hybridScore r) = Fin hs" "0 \<le> hs" by (auto elim: nonnegE)
    with mr(3) r have hs_le: "hs \<le> mr" by force
    have "\<exists>bs. nullish (map_get bm25Scores (js_String (r_id r))) (Fin 0) = Fin bs \<and> 0 \<le> bs \<and> bs \<le> mb"
    proof (cases "map_get bm25Scores (js_String (r_id r))")
      case None
      with mb(2) show ?thesis by (simp add: nullish_def)
    next
      case (Some s)
      then have mem: "(js_String (r_id r), s) \<in> set bm25Scores"
        by (simp add: map_get_def map_of_SomeD)
      with assms(7) have "nonneg s" by (auto simp: list_all_iff)
      then obtain bs where bs: "s = Fin bs" "0 \<le> bs" by (auto elim: nonnegE)
      from mem have "s \<in> set (map snd bm25Scores)" by force
      with mb(3) bs have "bs \<le> mb" by force
      with Some bs show ?thesis by (simp add: nullish_def)
    qed
    then obtain bs where bs: "nullish (map_get bm25Scores (js_String (r_id r))) (Fin 0) = Fin bs"
      "0 \<le> bs" "bs \<le> mb" by blast
    have "0 < mr" "0 < mb" using mr(2) mb(2) by simp_all
    from rerankOne_bound [OF assms(1,2) hs hs_le this(1) bs this(2)]
    show ?thesis by (simp add: mr(1) mb(1))
  qed
  have a: "list_all (\<lambda>r. in_unit_interval (r_hybridScore r)) (rerankWithBM25 this query results)"
    using one by (auto simp: eq list_all_iff set_js_sort)
  from a eq show ?thesis by blast
qed

lemma js_String_1: "js_String 1 = asc ''1''"
  by (simp add: js_String_def decimal.simps asc_def)

lemma rerankingRetriever_fields:
  "userId (rerankingRetriever weight service) = 7"
  "bm25Weight (rerankingRetriever weight service) = nullish weight (3 / 10)"
  "hr_bm25IndexService (rerankingRetriever weight service) = Some service"
  "useBM25Rerank (rerankingRetriever weight service) = True"
  by (simp_all add: rerankingRetriever_def rerankOptions_def defaultOptions_def
      HybridRetriever_constructor_def nullish_def)

lemma rerank_fusedA:
  "rerankWithBM25 (rerankingRetriever weight scoringService) (asc ''alpha'') [fusedA] =
     [fusedA \<lparr> r_hybridScore := Fin (nullish weight (3 / 10)) \<rparr>]"
proof -
  have ids: "map (\<lambda>r. js_String (r_id r)) [fusedA] = [asc ''1'']"
    by (simp add: fusedA_def js_String_1)
  have mr: "js_max (map (\<lambda>r. js_or0 (r_hybridScore r)) [fusedA] @ [Fin (1 / 1000)]) = Fin (1 / 1000)"
    by (simp add: js_max_def fusedA_def)
  have mb: "js_max (map snd [(asc ''1'', Fin 2)] @ [Fin (1 / 1000)]) = Fin 2"
    by (simp add: js_max_def)
  have one: "rerankOne (rerankingRetriever weight scoringService) [(asc ''1'', Fin 2)]
               (Fin (1 / 1000)) (Fin 2) fusedA =
             fusedA \<lparr> r_hybridScore := Fin (nullish weight (3 / 10)) \<rparr>"
    by (simp add: rerankOne_def Let_def rerankingRetriever_fields js_sub_def map_get_def
        nullish_def fusedA_def js_String_1)
  have "rerankWithBM25 (rerankingRetriever weight scoringService) (asc ''alpha'') [fusedA] =
        js_sort byHybridScore
          [rerankOne (rerankingRetriever weight scoringService) [(asc ''1'', Fin 2)]
             (js_max (map (\<lambda>r. js_or0 (r_hybridScore r)) [fusedA] @ [Fin (1 / 1000)]))
             (js_max (map snd [(asc ''1'', Fin 2)] @ [Fin (1 / 1000)])) fusedA]"
    unfolding rerankWithBM25_def rerankingRetriever_fields
    by (simp add: scoringService_def)
  then show ?thesis
    by (simp only: mr mb one) (simp add: js_sort_def)
qed

lemma merge_fusedA: "mergeResultsWithRRF (rerankingRetriever weight service) [vecA] [kwA] = [fusedA]"
  by (simp add: merge_defs rerankingRetriever_def rerankOptions_def defaultOptions_def
      vecA_def kwA_def fusedA_def)

lemma rerank_fusedA_scored:
  assumes "svc_hasIndex service 7 = Inr True"
      and "svc_getScoresForDocuments service 7 (asc ''alpha'') [asc ''1''] = Inr [(asc ''1'', s)]"
  shows "rerankWithBM25 (rerankingRetriever weight service) (asc ''alpha'') [fusedA] =
     [fusedA \<lparr> r_hybridScore :=
        js_add (js_mul (Fin 0) (Fin (1 - nullish weight (3 / 10))))
               (js_mul (js_div s (js_max2 s (Fin (1 / 1000)))) (Fin (nullish weight (3 / 10)))) \<rparr>]"
proof -
  have ids: "map (\<lambda>r. js_String (r_id r)) [fusedA] = [asc ''1'']"
    by (simp add: fusedA_def js_String_1)
  have mr: "js_max (map (\<lambda>r. js_or0 (r_hybridScore r)) [fusedA] @ [Fin (1 / 1000)]) = Fin (1 / 1000)"
    by (simp add: js_max_def fusedA_def)
  have mb: "js_max (map snd [(asc ''1'', s)] @ [Fin (1 / 1000)]) = js_max2 s (Fin (1 / 1000))"
    by (cases s) (simp_all add: js_max_def)
  have one: "rerankOne (rerankingRetriever weight service) [(asc ''1'', s)]
               (Fin (1 / 1000)) (js_max2 s (Fin (1 / 1000))) fusedA =
             fusedA \<lparr> r_hybridScore :=
               js_add (js_mul (Fin 0) (Fin (1 - nullish weight (3 / 10))))
                 (js_mul (js_div s (js_max2 s (Fin (1 / 1000)))) (Fin (nullish weight (3 / 10)))) \<rparr>"
    by (simp add: rerankOne_def Let_def rerankingRetriever_fields js_sub_def map_get_def
        nullish_def fusedA_def js_String_1)
  have "rerankWithBM25 (rerankingRetriever weight service) (asc ''alpha'') [fusedA] =
        js_sort byHybridScore
          [rerankOne (rerankingRetriever weight service) [(asc ''1'', s)]
             (js_max (map (\<lambda>r. js_or0 (r_hybridScore r)) [fusedA] @ [Fin (1 / 1000)]))
             (js_max (map snd [(asc ''1'', s)] @ [Fin (1 / 1000)])) fusedA]"
    unfolding rerankWithBM25_def rerankingRetriever_fields ids
    by (simp add: assms)
  then show ?thesis
    by (simp only: mr mb one) (simp add: js_sort_def)
qed

text \<open>
  C4, as stated (whenever the rerank stage runs, every \<open>finalScore\<close> lies in [0,1]),
  fails, on the fused list of C1 in each case. \<open>bm25Weight\<close> is taken from the options
  as it is: with \<open>bm25Weight = 2\<close> and a BM25 score of 2 the stage computes
  \<open>0 * (1 - 2) + (2 / 2) * 2 = 2\<close>. The BM25 scores are taken from the index service as
  they are, and only their maximum is floored: with the default \<open>bm25Weight = 0.3\<close> and
  a BM25 score of \<open>-1\<close>, \<open>maxBM25\<close> is 0.001 and the stage computes
  \<open>0 * 0.7 + (-1 / 0.001) * 0.3 = -300\<close>; with a BM25 score of \<open>NaN\<close> it computes \<open>NaN\<close>.
\<close>

theorem C4_finalScore_leaves_unit_interval:
  "map r_hybridScore
     (rerankWithBM25 (rerankingRetriever (Some 2) scoringService) (asc ''alpha'')
        (mergeResultsWithRRF (rerankingRetriever (Some 2) scoringService) [vecA] [kwA])) = [Fin 2] \<and>
   \<not> in_unit_interval (Fin 2) \<and>
   bm25Weight (rerankingRetriever None negativeScoreService) = 3 / 10 \<and>
   map r_hybridScore
     (rerankWithBM25 (rerankingRetriever None negativeScoreService) (asc ''alpha'')
        (mergeResultsWithRRF (rerankingRetriever None negativeScoreService) [vecA] [kwA])) = [Fin (- 300)] \<and>
   \<not> in_unit_interval (Fin (- 300)) \<and>
   map r_hybridScore
     (rerankWithBM25 (rerankingRetriever None nanScoreService) (asc ''alpha'')
        (mergeResultsWithRRF (rerankingRetriever None nanScoreService) [vecA] [kwA])) = [NaN] \<and>
   \<not> in_unit_interval NaN"
proof -
  have a: "map r_hybridScore
     (rerankWithBM25 (rerankingRetriever (Some 2) scoringService) (asc ''alpha'') [fusedA]) = [Fin 2]"
    by (subst rerank_fusedA_scored [where s = "Fin 2"]) (simp_all add: scoringService_def nullish_def)
  have b: "map r_hybridScore
     (rerankWithBM25 (rerankingRetriever None negativeScoreService) (asc ''alpha'') [fusedA]) = [Fin (- 300)]"
    by (subst rerank_fusedA_scored [where s = "Fin (- 1)"]) (simp_all add: negativeScoreService_def nullish_def)
  have c: "map r_hybridScore
     (rerankWithBM25 (rerankingRetriever None nanScoreService) (asc ''alpha'') [fusedA]) = [NaN]"
    by (subst rerank_fusedA_scored [where s = NaN]) (simp_all add: nanScoreService_def nullish_def)
  from a b c show ?thesis
    by (simp add: merge_fusedA rerankingRetriever_fields nullish_def)
qed

text \<open>
  C4, amended: for a retriever as the constructor builds it, with \<open>bm25Weight\<close> in
  [0,1], whose index service has an index for the tenant and returns BM25 scores that
  are finite and not negative, every \<open>finalScore\<close> of the rerank stage run on the fused
  list lies in [0,1]. The stage returns the fused results, each with
  \<open>finalScore = (hybridScore / maxRRF) * (1 - bm25Weight) + (bm25Score / maxBM25) * bm25Weight\<close>,
  sorted by that score, where \<open>maxRRF\<close> and \<open>maxBM25\<close> are the maxima over the result
  set and 0.001, and a missing BM25 score or a \<open>NaN\<close> fused score counts as 0. Nothing
  is assumed of the fused scores: those of a retriever built by the constructor are all
  \<open>NaN\<close>.
\<close>

theorem C4_finalScore_in_unit_interval:
  assumes "this = HybridRetriever_constructor pl emb uid options"
      and "0 \<le> bm25Weight this" and "bm25Weight this \<le> 1"
      and "hr_bm25IndexService this = Some service"
      and "svc_hasIndex service (userId this) = Inr True"
      and "svc_getScoresForDocuments service (userId this) query
             (map (\<lambda>r. js_String (r_id r)) (mergeResultsWithRRF this vs ks)) = Inr bm25Scores"
      and "list_all (\<lambda>kv. nonneg (snd kv)) bm25Scores"
  shows "list_all (\<lambda>r. in_unit_interval (r_hybridScore r))
           (rerankWithBM25 this query (mergeResultsWithRRF this vs ks)) \<and>
         rerankWithBM25 this query (mergeResultsWithRRF this vs ks) =
           js_sort byHybridScore
             (map (rerankOne this bm25Scores
                     (js_max (map (\<lambda>r. js_or0 (r_hybridScore r)) (mergeResultsWithRRF this vs ks) @
                              [Fin (1 / 1000)]))
                     (js_max (map snd bm25Scores @ [Fin (1 / 1000)])))
                (mergeResultsWithRRF this vs ks))"
proof -
  have "rrfK this = None" by (simp add: assms(1) constructor_rrfK)
  then have "list_all (\<lambda>r. nonneg (js_or0 (r_hybridScore r))) (mergeResultsWithRRF this vs ks)"
    by (auto simp: list_all_iff dest!: merge_without_rrfK)
  from rerank_bound [OF assms(2,3) this assms(4-7)] show ?thesis .
qed

theorem C4_finalScore_in_unit_interval_witness:
  "rerankingRetriever None scoringService =
     HybridRetriever_constructor noPool noEmbeddings 7
       ((rerankOptions scoringService) \<lparr> o_bm25Weight := None \<rparr>) \<and>
   0 \<le> bm25Weight (rerankingRetriever None scoringService) \<and>
   bm25Weight (rerankingRetriever None scoringService) \<le> 1 \<and>
   hr_bm25IndexService (rerankingRetriever None scoringService) = Some scoringService \<and>
   svc_hasIndex scoringService (userId (rerankingRetriever None scoringService)) = Inr True \<and>
   svc_getScoresForDocuments scoringService (userId (rerankingRetriever None scoringService))
     (asc ''alpha'')
     (map (\<lambda>r. js_String (r_id r))
        (mergeResultsWithRRF (rerankingRetriever None scoringService) [vecA] [kwA])) =
     Inr [(asc ''1'', Fin 2)] \<and>
   list_all (\<lambda>kv. nonneg (snd kv)) [(asc ''1'', Fin 2)] \<and>
   list_all (\<lambda>r. in_unit_interval (r_hybridScore r))
     (rerankWithBM25 (rerankingRetriever None scoringService) (asc ''alpha'')
        (mergeResultsWithRRF (rerankingRetriever None scoringService) [vecA] [kwA])) \<and>
   map r_hybridScore
     (rerankWithBM25 (rerankingRetriever None scoringService) (asc ''alpha'')
        (mergeResultsWithRRF (rerankingRetriever None scoringService) [vecA] [kwA])) = [Fin (3 / 10)]"
proof -
  have h0: "rerankingRetriever None scoringService =
     HybridRetriever_constructor noPool noEmbeddings 7
       ((rerankOptions scoringService) \<lparr> o_bm25Weight := None \<rparr>)"
    by (simp add: rerankingRetriever_def)
  have h1: "0 \<le> bm25Weight (rerankingRetriever None scoringService)"
   and h2: "bm25Weight (rerankingRetriever None scoringService) \<le> 1"
    by (simp_all add: rerankingRetriever_fields nullish_def)
  have h4: "hr_bm25IndexService (rerankingRetriever None scoringService) = Some scoringService"
    by (simp add: rerankingRetriever_fields)
  have h5: "svc_hasIndex scoringService (userId (rerankingRetriever None scoringService)) = Inr True"
    by (simp add: scoringService_def)
  have h6: "svc_getScoresForDocuments scoringService (userId (rerankingRetriever None scoringService))
     (asc ''alpha'')
     (map (\<lambda>r. js_String (r_id r))
        (mergeResultsWithRRF (rerankingRetriever None scoringService) [vecA] [kwA])) =
     Inr [(asc ''1'', Fin 2)]"
    by (simp add: scoringService_def)
  have h7: "list_all (\<lambda>kv. nonneg (snd kv)) [(asc ''1'', Fin 2)]"
    by simp
  have v: "map r_hybridScore
     (rerankWithBM25 (rerankingRetriever None scoringService) (asc ''alpha'')
        (mergeResultsWithRRF (rerankingRetriever None scoringService) [vecA] [kwA])) = [Fin (3 / 10)]"
    by (simp add: merge_fusedA rerank_fusedA nullish_def)
  from C4_finalScore_in_unit_interval [OF h0 h1 h2 h4 h5 h6 h7] h0 h1 h2 h4 h5 h6 h7 v
  show ?thesis by blast
qed

text \<open>
  C5: the rerank stage returns the fused results as they are when the retriever has no
  index service, when \<open>hasIndex\<close> does not return \<open>true\<close> (it returns \<open>false\<close> or throws),
  and when \<open>getScoresForDocuments\<close> throws; and \<open>_getRelevantDocuments\<close> returns documents,
  never an error, whatever the services do.
\<close>

theorem C5_rerank_failure_is_skipped:
  "(hr_bm25IndexService this = None \<longrightarrow> rerankWithBM25 this query results = results) \<and>
   (hr_bm25IndexService this = Some service \<and> svc_hasIndex service (userId this) \<noteq> Inr True
      \<longrightarrow> rerankWithBM25 this query results = results) \<and>
   (hr_bm25IndexService this = Some service \<and>
    svc_getScoresForDocuments service (userId this) query (map (\<lambda>r. js_String (r_id r)) results) = Inl error
      \<longrightarrow> rerankWithBM25 this query results = results) \<and>
   (\<exists>documents. getRelevantDocuments this query = Inr documents)"
  by (auto simp: rerankWithBM25_def getRelevantDocuments_def Let_def split: sum.splits option.splits)

theorem C5_rerank_failure_is_skipped_witness:
  "hr_bm25IndexService (HybridRetriever_constructor noPool noEmbeddings 7 defaultOptions) = None \<and>
   rerankWithBM25 (HybridRetriever_constructor noPool noEmbeddings 7 defaultOptions)
     (asc ''alpha'') [fusedA] = [fusedA] \<and>
   hr_bm25IndexService (rerankingRetriever None noIndexService) = Some noIndexService \<and>
   svc_hasIndex noIndexService (userId (rerankingRetriever None noIndexService)) \<noteq> Inr True \<and>
   rerankWithBM25 (rerankingRetriever None noIndexService) (asc ''alpha'') [fusedA] = [fusedA] \<and>
   hr_bm25IndexService (rerankingRetriever None throwingService) = Some throwingService \<and>
   svc_getScoresForDocuments throwingService (userId (rerankingRetriever None throwingService))
     (asc ''alpha'') (map (\<lambda>r. js_String (r_id r)) [fusedA]) = Inl Thrown \<and>
   rerankWithBM25 (rerankingRetriever None throwingService) (asc ''alpha'') [fusedA] = [fusedA] \<and>
   (\<exists>documents. getRelevantDocuments (rerankingRetriever None throwingService) (asc ''alpha'')
      = Inr documents)"
proof -
  have n: "hr_bm25IndexService (HybridRetriever_constructor noPool noEmbeddings 7 defaultOptions) = None"
    by (simp add: HybridRetriever_constructor_def defaultOptions_def)
  have f1: "hr_bm25IndexService (rerankingRetriever None noIndexService) = Some noIndexService"
    by (simp add: rerankingRetriever_fields)
  have f2: "svc_hasIndex noIndexService (userId (rerankingRetriever None noIndexService)) \<noteq> Inr True"
    by (simp add: noIndexService_def)
  have h1: "hr_bm25IndexService (rerankingRetriever None throwingService) = Some throwingService"
    by (simp add: rerankingRetriever_fields)
  have h2: "svc_getScoresForDocuments throwingService (userId (rerankingRetriever None throwingService))
     (asc ''alpha'') (map (\<lambda>r. js_String (r_id r)) [fusedA]) = Inl Thrown"
    by (simp add: throwingService_def)
  from C5_rerank_failure_is_skipped
    [of "HybridRetriever_constructor noPool noEmbeddings 7 defaultOptions" "asc ''alpha''" "[fusedA]"]
    n
  have a: "rerankWithBM25 (HybridRetriever_constructor noPool noEmbeddings 7 defaultOptions)
     (asc ''alpha'') [fusedA] = [fusedA]" by blast
  from C5_rerank_failure_is_skipped
    [of "rerankingRetriever None noIndexService" "asc ''alpha''" "[fusedA]" noIndexService]
    f1 f2
  have b: "rerankWithBM25 (rerankingRetriever None noIndexService) (asc ''alpha'') [fusedA] = [fusedA]"
    by blast
  from C5_rerank_failure_is_skipped
    [of "rerankingRetriever None throwingService" "asc ''alpha''" "[fusedA]" throwingService Thrown]
    h1 h2
  have c: "rerankWithBM25 (rerankingRetriever None throwingService) (asc ''alpha'') [fusedA] = [fusedA] \<and>
   (\<exists>documents. getRelevantDocuments (rerankingRetriever None throwingService) (asc ''alpha'')
      = Inr documents)" by blast
  from n a f1 f2 b h1 h2 c show ?thesis by blast
qed

section \<open>Keyword search: escaping and matching\<close>

lemma replaceAll_Nil: "replaceAll c by [] = []"
  by (simp add: replaceAll_def)

lemma replaceAll_append: "replaceAll c by (xs @ ys) = replaceAll c by xs @ replaceAll c by ys"
  by (simp add: replaceAll_def)

lemma replaceAll_Cons: "replaceAll c by (x # xs) = (if x = c then by else [x]) @ replaceAll c by xs"
  by (simp add: replaceAll_def)

lemma escapeSQL_single_pass: "escapeSQL str = concat (map escapeChar str)"
  by (induction str)
     (simp_all add: escapeSQL_def replaceAll_Nil replaceAll_Cons replaceAll_append escapeChar_def)

lemma read_literal_step:
  "x \<noteq> 39 \<Longrightarrow> ys \<noteq> [] \<Longrightarrow>
   read_literal (x # ys) = map_option (\<lambda>vr. (x # fst vr, snd vr)) (read_literal ys)"
  by (cases ys) simp_all

lemma read_literal_quoteEscape:
  "rest = [] \<or> hd rest \<noteq> 39 \<Longrightarrow> read_literal (quoteEscape s @ 39 # rest) = Some (s, rest)"
proof (induction s)
  case Nil
  then show ?case by (cases rest) (simp_all add: quoteEscape_def)
next
  case (Cons c s)
  then have IH: "read_literal (quoteEscape s @ 39 # rest) = Some (s, rest)" by simp
  show ?case
  proof (cases "c = 39")
    case True
    with IH show ?thesis by (simp add: quoteEscape_def)
  next
    case False
    have "quoteEscape (c # s) @ 39 # rest = c # (quoteEscape s @ 39 # rest)"
      using False by (simp add: quoteEscape_def)
    with False IH show ?thesis by (simp add: read_literal_step)
  qed
qed

lemma escapeSQL_quoteEscape: "escapeSQL kw = quoteEscape (likeEscape kw)"
  by (induction kw)
     (simp_all add: escapeSQL_single_pass quoteEscape_def likeEscape_def escapeChar_def
        likeEscapeChar_def)

lemma likeLiteral_quoteEscape: "likeLiteral kw = quoteEscape (37 # likeEscape kw @ [37])"
  by (simp add: likeLiteral_def escapeSQL_quoteEscape quoteEscape_def)

lemma read_pattern_likeLiteral: "read_pattern (likeLiteral kw) = Some (37 # likeEscape kw @ [37])"
  using read_literal_quoteEscape [of "[]" "37 # likeEscape kw @ [37]"]
  by (simp add: read_pattern_def likeLiteral_quoteEscape)

lemma like_percent: "like (37 # R) t = (\<exists>u v. t = u @ v \<and> like R v)"
proof (induction t)
  case Nil
  then show ?case by simp
next
  case (Cons x xs)
  have "(\<exists>u v. x # xs = u @ v \<and> like R v) = (like R (x # xs) \<or> (\<exists>u v. xs = u @ v \<and> like R v))"
    by (auto simp: Cons_eq_append_conv)
  with Cons show ?case by simp
qed

lemma like_escaped_keyword:
  "92 \<notin> set kw \<Longrightarrow> like (likeEscape kw @ R) t = (\<exists>v. t = kw @ v \<and> like R v)"
proof (induction kw arbitrary: t)
  case Nil
  then show ?case by (simp add: likeEscape_def)
next
  case (Cons c kw)
  then have IH: "\<And>t. like (likeEscape kw @ R) t = (\<exists>v. t = kw @ v \<and> like R v)" and c: "c \<noteq> 92"
    by auto
  have unfold: "likeEscape (c # kw) @ R = likeEscapeChar c @ likeEscape kw @ R"
    by (simp add: likeEscape_def)
  show ?case
  proof (cases t)
    case Nil
    then show ?thesis unfolding unfold by (simp add: likeEscapeChar_def)
  next
    case (Cons x xs)
    then show ?thesis unfolding unfold using c IH [of xs]
      by (auto simp: likeEscapeChar_def)
  qed
qed

lemma like_contains:
  assumes "92 \<notin> set kw"
  shows "like (37 # likeEscape kw @ [37]) t = sublist kw t"
proof -
  have "like [37] v" for v using like_percent [of "[]" v] by simp
  then have "like (likeEscape kw @ [37]) v = (\<exists>w. v = kw @ w)" for v
    using like_escaped_keyword [OF assms, of "[37]" v] by simp
  then show ?thesis
    by (auto simp: like_percent sublist_def)
qed

lemma toLowerCase_likeEscape: "toLowerCase (likeEscape kw) = likeEscape (toLowerCase kw)"
  by (induction kw) (auto simp: toLowerCase_def likeEscape_def likeEscapeChar_def)

lemma toLowerCase_backslash: "(92 \<in> set (toLowerCase kw)) = (92 \<in> set kw)"
  by (induction kw) (auto simp: toLowerCase_def)

lemma keywordMatches_contains:
  assumes "92 \<notin> set kw"
  shows "keywordMatches kw content = sublist (toLowerCase kw) (toLowerCase content)"
proof -
  have "toLowerCase (37 # likeEscape kw @ [37]) = 37 # likeEscape (toLowerCase kw) @ [37]"
    using toLowerCase_likeEscape [of kw] by (simp add: toLowerCase_def)
  moreover have "92 \<notin> set (toLowerCase kw)" using assms by (simp add: toLowerCase_backslash)
  ultimately show ?thesis
    by (simp add: keywordMatches_def read_pattern_likeLiteral ilike_def like_contains)
qed


















text \<open>
  \<open>escapeSQL\<close> escapes \<open>%\<close>, \<open>_\<close> and the quote, but not the backslash, which is the
  escape character of \<open>LIKE\<close>. A keyword made of a backslash and \<open>_\<close> (92, 95) would
  become a pattern of \<open>%\<close>, two backslashes, \<open>_\<close> and \<open>%\<close>, a literal backslash followed
  by the wildcard \<open>_\<close>, and match the content made of a backslash and \<open>x\<close> (92, 120); a
  keyword made of \<open>_\<close> and a backslash (95, 92) would not match itself. The retriever
  extracts no such keyword from a query unless jieba returns one (lemma
  \<open>extracted_keyword_chars\<close>).
\<close>

lemma backslash_is_not_escaped:
  "keywordMatches [92, 95] [92, 120] \<and> \<not> sublist [92, 95] [92, 120::nat] \<and>
   \<not> keywordMatches [95, 92] [95, 92] \<and> sublist [95, 92] [95, 92::nat]"
  by (simp add: keywordMatches_def read_pattern_likeLiteral ilike_def likeEscape_def
      likeEscapeChar_def toLowerCase_def sublist_Cons_right prefix_Cons)







section \<open>Vector search\<close>

lemma vectorSearch_statement_refused: "\<not> accepts_similarity_statement vectorSearch_statement"
  by (simp add: accepts_similarity_statement_def vectorSearch_statement_def)

lemma vectorSearch_empty: "vectorSearch this query = []"
  by (simp add: vectorSearch_def query_similarity_def vectorSearch_statement_refused split: option.splits)

lemma similaritySearch_poolAB: "similaritySearch poolAB embedAny (asc ''gamma'') 7 (Some 5) (Some (3 / 10)) =
   Inr [\<lparr> v_id = 1, v_content = asc ''alpha'', v_similarity = 9 / 10 \<rparr>,
        \<lparr> v_id = 2, v_content = asc ''beta'', v_similarity = 4 / 10 \<rparr>]"
  by (simp add: similaritySearch_def embedAny_def poolAB_def query_similarity_def
      accepts_similarity_statement_def similaritySearch_statement_def nullish_def rowA_def rowB_def
      similarityTo_def distanceByFirst_def)

lemma gamma_no_stop_word: "asc ''gamma'' \<notin> set retrieverStopWords"
  by (simp add: retrieverStopWords_def asc_def)

lemma extractKeywords_gamma: "hr_extractKeywords retrieverAB (asc ''gamma'') = [asc ''gamma'']"
proof -
  have "match_runs isLatinLetter (asc ''gamma'') = [asc ''gamma'']"
    by (simp add: asc_def match_runs_def isLatinLetter_def)
  moreover have "match_runs isChineseChar (asc ''gamma'') = []"
    by (simp add: asc_def match_runs_def isChineseChar_def)
  moreover have "toLowerCase (asc ''gamma'') = asc ''gamma''"
    by (simp add: asc_def toLowerCase_def)
  moreover have "length (asc ''gamma'') = 5" by (simp add: asc_def)
  moreover have "hr_tokenizerService retrieverAB = None"
    by (simp add: retrieverAB_def HybridRetriever_constructor_def defaultOptions_def)
  ultimately show ?thesis
    using gamma_no_stop_word
    by (simp add: hr_extractKeywords_def insertion_order_def)
qed

lemma gamma_matches_nothing: "\<not> keywordMatches (asc ''gamma'') (asc ''alpha'') \<and> \<not> keywordMatches (asc ''gamma'') (asc ''beta'')"
proof -
  have "92 \<notin> set (asc ''gamma'')" by (simp add: asc_def)
  then show ?thesis
    by (simp add: keywordMatches_contains) (simp add: asc_def toLowerCase_def sublist_Cons_right prefix_Cons)
qed

lemma keywordSearch_gamma: "keywordSearch retrieverAB (asc ''gamma'') = []"
proof -
  have p: "read_patterns [likeLiteral (asc ''gamma'')] = Some [37 # likeEscape (asc ''gamma'') @ [37]]"
    by (simp add: read_pattern_likeLiteral)
  have "\<not> ilike (37 # likeEscape (asc ''gamma'') @ [37]) (asc ''alpha'')"
       "\<not> ilike (37 # likeEscape (asc ''gamma'') @ [37]) (asc ''beta'')"
    using gamma_matches_nothing by (simp_all add: keywordMatches_def read_pattern_likeLiteral)
  then have "matchCount [37 # likeEscape (asc ''gamma'') @ [37]] rowA = 0"
            "matchCount [37 # likeEscape (asc ''gamma'') @ [37]] rowB = 0"
    by (simp_all add: matchCount_def rowA_def rowB_def)
  then have "query_keywords poolAB [likeLiteral (asc ''gamma'')] 7 10 = Inr []"
    by (simp add: query_keywords_def read_pattern_likeLiteral poolAB_def)
  moreover have "pool retrieverAB = poolAB" "userId retrieverAB = 7" "limit retrieverAB * 2 = 10"
    by (simp_all add: retrieverAB_def HybridRetriever_constructor_def defaultOptions_def nullish_def)
  ultimately show ?thesis
    by (simp add: keywordSearch_def extractKeywords_gamma poolAB_def)
qed

text \<open>
  C2 (vector search returns the tenant's documents at or above the similarity floor, by
  decreasing similarity, capped at the limit; with A at 0.9, B at 0.4, no keyword match
  and a floor of 0.3, \<open>retrieve\<close> returns \<open>[A, B]\<close>). The code does not do this: the server
  refuses the statement of \<open>vectorSearch\<close>, the error is caught, and the vector results
  are empty for every query; in the scenario \<open>retrieve\<close> returns no document. The
  statement of \<open>VectorStoreService.similaritySearch\<close>, which has the floor condition in
  the place of the stray line, returns \<open>[A, B]\<close> (lemma \<open>similaritySearch_poolAB\<close>).
\<close>

theorem C2_vector_search_returns_nothing:
  "vectorSearch retrieverAB (asc ''gamma'') = [] \<and>
   keywordSearch retrieverAB (asc ''gamma'') = [] \<and>
   getSearchResults retrieverAB (asc ''gamma'') = [] \<and>
   getRelevantDocuments retrieverAB (asc ''gamma'') = Inr []"
proof -
  have m: "mergeResultsWithRRF retrieverAB [] [] = []"
    by (simp add: mergeResultsWithRRF_def buildScoreMap_def map_values_def js_sort_def)
  have "useBM25Rerank retrieverAB = False"
    by (simp add: retrieverAB_def HybridRetriever_constructor_def defaultOptions_def nullish_def)
  with m show ?thesis
    by (simp add: vectorSearch_empty keywordSearch_gamma getSearchResults_def getRelevantDocuments_def
        convertToDocuments_def)
qed

end
